theory Spec2Isabelle
  imports Main "HOL-Library.Word" "HOL-Library.Multiset"
begin

section \<open>Strings, bytes and the platform library\<close>

text \<open>
  A JavaScript string is a sequence of UTF-16 code units and a file is a sequence of
  bytes. String literals of the source that are plain ASCII are written with \<open>js\<close>;
  the Chinese messages are given by their code units.
\<close>

type_synonym byte = "8 word"
type_synonym jsstring = "16 word list"

definition js :: "string \<Rightarrow> jsstring" where
  "js s = map of_char s"

text \<open>
  A \<open>RegExp\<close> is used by the sniffer through \<open>test\<close> only. A pattern without the \<open>g\<close> and
  the \<open>y\<close> flag keeps no position between calls, and is the predicate that \<open>test\<close>
  computes on a string. The patterns that the sniffer builds itself, from the required
  field names, carry no flag. The first model of the sniffer below takes the patterns of
  the registered features to be of this kind as well; the second model, in the section
  on the sniffer with pattern objects, gives every registered pattern its \<open>lastIndex\<close>.
\<close>

type_synonym regexp = "jsstring \<Rightarrow> bool"

text \<open>
  Values that are thrown: an \<open>Error\<close> object with its message, the system error that
  \<open>fs.openSync\<close>, \<open>fs.readSync\<close> and \<open>fs.statSync\<close> raise, with its code, or the
  \<open>SyntaxError\<close> that \<open>new RegExp\<close> raises on a malformed pattern, with its message.
\<close>

datatype exn = Error jsstring | SystemError jsstring | SyntaxError jsstring

text \<open>
  The file system as the code observes it: a path either cannot be opened or read, and
  then the call raises, or it has contents.
\<close>

type_synonym filesystem = "jsstring \<Rightarrow> exn + byte list"

text \<open>
  The functions of the platform that the code calls and that are not part of the
  repository: \<open>path.extname\<close>, \<open>String.prototype.toLowerCase\<close>,
  \<open>Buffer.prototype.toString('utf-8')\<close> and the constructor \<open>new RegExp(source)\<close>. The
  constructor is applied to the pattern texts built from required field names only. In
  the first model it is a total function, which it is on names whose pattern text is
  well formed; in the second model it may raise a \<open>SyntaxError\<close>. Every definition below
  that calls one of the four takes them as the parameter \<open>L\<close>, so every theorem holds for
  each of their implementations.
\<close>

record runtime =
  extname :: "jsstring \<Rightarrow> jsstring"
  toLowerCase :: "jsstring \<Rightarrow> jsstring"
  toString_utf8 :: "byte list \<Rightarrow> jsstring"
  RegExp_new :: "jsstring \<Rightarrow> regexp"

subsection \<open>String operations\<close>

text \<open>\<open>s.startsWith(p)\<close> and \<open>s.includes(n)\<close> (named \<open>includesStr\<close> here).\<close>

fun startsWith :: "'a list \<Rightarrow> 'a list \<Rightarrow> bool" where
  "startsWith s [] = True"
| "startsWith [] (p # ps) = False"
| "startsWith (c # s) (p # ps) = (c = p \<and> startsWith s ps)"

fun includesStr :: "'a list \<Rightarrow> 'a list \<Rightarrow> bool" where
  "includesStr [] n = (n = [])"
| "includesStr (c # s) n = (startsWith (c # s) n \<or> includesStr s n)"

text \<open>\<open>s.replace(c, r)\<close> for a one-character string \<open>c\<close>: the first occurrence only.\<close>

fun replaceFirst :: "'a \<Rightarrow> 'a list \<Rightarrow> 'a list \<Rightarrow> 'a list" where
  "replaceFirst c r [] = []"
| "replaceFirst c r (x # xs) = (if x = c then r @ xs else x # replaceFirst c r xs)"

text \<open>\<open>xs.join(sep)\<close> on an array of strings.\<close>

fun join :: "'a list \<Rightarrow> 'a list list \<Rightarrow> 'a list" where
  "join sep [] = []"
| "join sep [x] = x"
| "join sep (x # y # ys) = x @ sep @ join sep (y # ys)"

text \<open>
  \<open>s.trim()\<close> removes white space and line terminators from both ends: U+0009 to U+000D,
  U+0020, U+00A0, U+1680, U+2000 to U+200A, U+2028, U+2029, U+202F, U+205F, U+3000 and
  U+FEFF.
\<close>

definition isWhiteSpace :: "16 word \<Rightarrow> bool" where
  "isWhiteSpace c \<longleftrightarrow>
     (0x9 \<le> c \<and> c \<le> 0xD) \<or> c = 0x20 \<or> c = 0xA0 \<or> c = 0x1680 \<or>
     (0x2000 \<le> c \<and> c \<le> 0x200A) \<or> c = 0x2028 \<or> c = 0x2029 \<or> c = 0x202F \<or>
     c = 0x205F \<or> c = 0x3000 \<or> c = 0xFEFF"

definition trim :: "jsstring \<Rightarrow> jsstring" where
  "trim s = rev (dropWhile isWhiteSpace (rev (dropWhile isWhiteSpace s)))"

section \<open>The data model of the sniffer\<close>

text \<open>
  The declarations of \<open>types.ts\<close>, as the sniffer reads them. An optional property is
  an \<open>option\<close>; \<open>fieldPatterns\<close> is the list of entries that \<open>Object.entries\<close> returns.
  Field names that several records of the source share (\<open>id\<close>, \<open>name\<close>, \<open>platform\<close>) carry
  the record as a prefix.
\<close>

record signatures =
  head :: "regexp list option"
  requiredFields :: "jsstring list option"
  fieldPatterns :: "(jsstring \<times> regexp) list option"

record formatFeature =
  feature_id :: jsstring
  feature_name :: jsstring
  feature_platform :: jsstring
  priority :: int
  extensions :: "jsstring list"
  signatures :: signatures

record ('p, 'q) formatModule =
  feature :: formatFeature
  parser :: 'p
  preprocessor :: "'q option"

record formatMatchCheck =
  formatId :: jsstring
  formatName :: jsstring
  extensionMatch :: bool
  headSignatureMatch :: "bool option"
  requiredFieldsMatch :: "bool option"
  missingFields :: "jsstring list"
  fullMatch :: bool

record formatDiagnosis =
  recognized :: bool
  matchedFormat :: "formatFeature option"
  checks :: "formatMatchCheck list"
  partialMatches :: "formatMatchCheck list"
  suggestion :: jsstring

text \<open>The class \<open>FormatSniffer\<close> has one field, the registered modules.\<close>

record ('p, 'q) formatSniffer =
  formats :: "('p, 'q) formatModule list"

section \<open>The sniffer\<close>

definition HEAD_SIZE :: nat where
  "HEAD_SIZE = 8 * 1024"

text \<open>
  \<open>readFileHead\<close>: \<open>openSync\<close> or \<open>readSync\<close> may raise, and nothing catches it; otherwise
  \<open>readSync\<close> fills the buffer with at most \<open>size\<close> (here \<open>sz\<close>) bytes from position 0.
\<close>

definition readFileHead :: "runtime \<Rightarrow> filesystem \<Rightarrow> jsstring \<Rightarrow> nat \<Rightarrow> exn + jsstring" where
  "readFileHead L fs filePath sz =
     (case fs filePath of
        Inl e \<Rightarrow> Inl e
      | Inr buffer \<Rightarrow> Inr (toString_utf8 L (take sz buffer)))"

definition getExtension :: "runtime \<Rightarrow> jsstring \<Rightarrow> jsstring" where
  "getExtension L filePath = toLowerCase L (extname L filePath)"

definition matchHeadSignatures :: "jsstring \<Rightarrow> regexp list \<Rightarrow> bool" where
  "matchHeadSignatures headContent patterns = list_ex (\<lambda>pattern. pattern headContent) patterns"

text \<open>
  The text of the pattern that both field checks build from a field name: a double
  quote, the name with its first dot replaced by \<open>"\s*:\s*.*"\<close>, and \<open>"\s*:\<close>.
\<close>

definition fieldPatternSource :: "jsstring \<Rightarrow> jsstring" where
  "fieldPatternSource field =
     [0x22] @ replaceFirst 0x2E [0x22, 0x5C, 0x73, 0x2A, 0x3A, 0x5C, 0x73, 0x2A, 0x2E, 0x2A, 0x22] field
       @ [0x22, 0x5C, 0x73, 0x2A, 0x3A]"

definition matchRequiredFields :: "runtime \<Rightarrow> jsstring \<Rightarrow> jsstring list \<Rightarrow> bool" where
  "matchRequiredFields L headContent flds =
     list_all (\<lambda>field.
        let pattern = RegExp_new L (fieldPatternSource field)
        in pattern headContent \<or> includesStr headContent ([0x22] @ field @ [0x22])) flds"

text \<open>The loop of \<open>checkRequiredFieldsDetail\<close>, with the array \<open>missing\<close> as its state.\<close>

fun checkRequiredFieldsLoop :: "runtime \<Rightarrow> jsstring \<Rightarrow> jsstring list \<Rightarrow> jsstring list \<Rightarrow> jsstring list" where
  "checkRequiredFieldsLoop L headContent [] missing = missing"
| "checkRequiredFieldsLoop L headContent (field # flds) missing =
     (let pattern = RegExp_new L (fieldPatternSource field);
          found = (pattern headContent \<or> includesStr headContent ([0x22] @ field @ [0x22]))
      in checkRequiredFieldsLoop L headContent flds
           (if \<not> found then missing @ [field] else missing))"

definition checkRequiredFieldsDetail :: "runtime \<Rightarrow> jsstring \<Rightarrow> jsstring list \<Rightarrow> bool \<times> jsstring list" where
  "checkRequiredFieldsDetail L headContent flds =
     (let missing = checkRequiredFieldsLoop L headContent flds []
      in (length missing = 0, missing))"

definition createSniffer :: "('p, 'q) formatSniffer" where
  "createSniffer = \<lparr>formats = []\<rparr>"

text \<open>
  \<open>register\<close> pushes the module and sorts the array by priority; \<open>Array.prototype.sort\<close> is
  stable, as \<open>sort_key\<close> is.
\<close>

definition register :: "('p, 'q) formatModule \<Rightarrow> ('p, 'q) formatSniffer \<Rightarrow> ('p, 'q) formatSniffer" where
  "register module S = S\<lparr>formats := sort_key (\<lambda>m. priority (feature m)) (formats S @ [module])\<rparr>"

fun registerAll :: "('p, 'q) formatModule list \<Rightarrow> ('p, 'q) formatSniffer \<Rightarrow> ('p, 'q) formatSniffer" where
  "registerAll [] S = S"
| "registerAll (module # modules) S = registerAll modules (register module S)"

text \<open>The loop over the entries of \<open>fieldPatterns\<close>, which stops at the first failure.\<close>

fun fieldPatternsLoop :: "jsstring \<Rightarrow> (jsstring \<times> regexp) list \<Rightarrow> bool" where
  "fieldPatternsLoop headContent [] = True"
| "fieldPatternsLoop headContent ((key, pattern) # entries) =
     (if \<not> pattern headContent then False else fieldPatternsLoop headContent entries)"

definition matchFeature :: "runtime \<Rightarrow> formatFeature \<Rightarrow> jsstring \<Rightarrow> jsstring \<Rightarrow> bool" where
  "matchFeature L feat ext headContent =
     (if ext \<notin> set (extensions feat) then False
      else if (case head (signatures feat) of
                 Some hs \<Rightarrow> length hs > 0 \<and> \<not> matchHeadSignatures headContent hs
               | None \<Rightarrow> False) then False
      else if (case requiredFields (signatures feat) of
                 Some flds \<Rightarrow> length flds > 0 \<and> \<not> matchRequiredFields L headContent flds
               | None \<Rightarrow> False) then False
      else (case fieldPatterns (signatures feat) of
              Some entries \<Rightarrow> fieldPatternsLoop headContent entries
            | None \<Rightarrow> True))"

text \<open>The scan of \<open>sniff\<close> and of \<open>getParser\<close> over \<open>this.formats\<close>.\<close>

fun sniffLoop :: "runtime \<Rightarrow> jsstring \<Rightarrow> jsstring \<Rightarrow> ('p, 'q) formatModule list \<Rightarrow> formatFeature option" where
  "sniffLoop L ext headContent [] = None"
| "sniffLoop L ext headContent (m # ms) =
     (if matchFeature L (feature m) ext headContent then Some (feature m)
      else sniffLoop L ext headContent ms)"

definition sniff :: "runtime \<Rightarrow> filesystem \<Rightarrow> ('p, 'q) formatSniffer \<Rightarrow> jsstring \<Rightarrow> exn + formatFeature option" where
  "sniff L fs S filePath =
     (let ext = getExtension L filePath
      in case readFileHead L fs filePath HEAD_SIZE of
           Inl e \<Rightarrow> Inl e
         | Inr headContent \<Rightarrow> Inr (sniffLoop L ext headContent (formats S)))"

fun getParserLoop :: "runtime \<Rightarrow> jsstring \<Rightarrow> jsstring \<Rightarrow> ('p, 'q) formatModule list \<Rightarrow> 'p option" where
  "getParserLoop L ext headContent [] = None"
| "getParserLoop L ext headContent (m # ms) =
     (if matchFeature L (feature m) ext headContent then Some (parser m)
      else getParserLoop L ext headContent ms)"

definition getParser :: "runtime \<Rightarrow> filesystem \<Rightarrow> ('p, 'q) formatSniffer \<Rightarrow> jsstring \<Rightarrow> exn + 'p option" where
  "getParser L fs S filePath =
     (let ext = getExtension L filePath
      in case readFileHead L fs filePath HEAD_SIZE of
           Inl e \<Rightarrow> Inl e
         | Inr headContent \<Rightarrow> Inr (getParserLoop L ext headContent (formats S)))"

definition checkFeatureDetail :: "runtime \<Rightarrow> formatFeature \<Rightarrow> jsstring \<Rightarrow> jsstring \<Rightarrow> formatMatchCheck" where
  "checkFeatureDetail L feat ext headContent =
     (let result = \<lparr>formatId = feature_id feat, formatName = feature_name feat,
                     extensionMatch = (ext \<in> set (extensions feat)),
                     headSignatureMatch = None, requiredFieldsMatch = None,
                     missingFields = [], fullMatch = False\<rparr>
      in if \<not> extensionMatch result then result
         else
           let result1 = (case head (signatures feat) of
                            Some hs \<Rightarrow> if length hs > 0
                                       then result\<lparr>headSignatureMatch := Some (matchHeadSignatures headContent hs)\<rparr>
                                       else result
                          | None \<Rightarrow> result);
               result2 = (case requiredFields (signatures feat) of
                            Some flds \<Rightarrow> if length flds > 0
                                           then (case checkRequiredFieldsDetail L headContent flds of
                                                   (allMatch, missing) \<Rightarrow>
                                                     result1\<lparr>requiredFieldsMatch := Some allMatch,
                                                             missingFields := missing\<rparr>)
                                           else result1
                          | None \<Rightarrow> result1);
               fieldPatternsMatch = (case fieldPatterns (signatures feat) of
                                       Some entries \<Rightarrow> fieldPatternsLoop headContent entries
                                     | None \<Rightarrow> True)
           in result2\<lparr>fullMatch :=
                extensionMatch result2 \<and>
                (headSignatureMatch result2 = None \<or> headSignatureMatch result2 = Some True) \<and>
                (requiredFieldsMatch result2 = None \<or> requiredFieldsMatch result2 = Some True) \<and>
                fieldPatternsMatch\<rparr>)"

text \<open>
  \<open>generateSuggestion\<close>. The messages, in order: no format for the extension (the
  extension between double quotes); head signature mismatch; missing required fields;
  the file looks like the named format but has the listed problems; the content is not
  valid JSON; the extension matches the named format but the content does not.
\<close>

definition generateSuggestion :: "jsstring \<Rightarrow> formatMatchCheck list \<Rightarrow> jsstring \<Rightarrow> jsstring" where
  "generateSuggestion ext partials headContent =
     (case partials of
        [] \<Rightarrow> [0x6CA1, 0x6709, 0x627E, 0x5230, 0x5339, 0x914D, 0x6269, 0x5C55, 0x540D, 0x20, 0x22]
              @ ext @
              [0x22, 0x20, 0x7684, 0x683C, 0x5F0F, 0xFF0C, 0x8BF7, 0x68C0, 0x67E5, 0x6587, 0x4EF6,
               0x7C7B, 0x578B, 0x662F, 0x5426, 0x6B63, 0x786E]
      | mostLikely # rest \<Rightarrow>
          let issues0 = (if headSignatureMatch mostLikely = Some False
                         then [[0x6587, 0x4EF6, 0x5934, 0x7B7E, 0x540D, 0x4E0D, 0x5339, 0x914D]]
                         else []);
              issues = (if length (missingFields mostLikely) > 0
                        then issues0 @ [[0x7F3A, 0x5C11, 0x5FC5, 0x9700, 0x5B57, 0x6BB5, 0x3A, 0x20]
                                          @ join [0x2C, 0x20] (missingFields mostLikely)]
                        else issues0)
          in if length issues > 0
             then [0x6587, 0x4EF6, 0x7591, 0x4F3C, 0x20] @ formatName mostLikely @
                  [0x20, 0x683C, 0x5F0F, 0xFF0C, 0x4F46, 0x5B58, 0x5728, 0x4EE5, 0x4E0B, 0x95EE, 0x9898, 0xFF1A]
                  @ join [0xFF1B] issues
             else if ext = js ''.json'' \<and> \<not> startsWith (trim headContent) (js ''{'')
                       \<and> \<not> startsWith (trim headContent) (js ''['')
             then [0x6587, 0x4EF6, 0x5185, 0x5BB9, 0x4E0D, 0x662F, 0x6709, 0x6548, 0x7684, 0x20,
                   0x4A, 0x53, 0x4F, 0x4E, 0x20, 0x683C, 0x5F0F]
             else [0x6269, 0x5C55, 0x540D, 0x5339, 0x914D, 0x20] @ formatName mostLikely @
                  [0x20, 0x683C, 0x5F0F, 0xFF0C, 0x4F46, 0x5185, 0x5BB9, 0x7ED3, 0x6784, 0x4E0D, 0x7B26,
                   0x5408, 0x9884, 0x671F])"

text \<open>
  The loop of \<open>diagnose\<close>; its state is the three local variables \<open>checks\<close>,
  \<open>partialMatches\<close> and \<open>matchedFormat\<close>.
\<close>

fun diagnoseLoop :: "runtime \<Rightarrow> jsstring \<Rightarrow> jsstring \<Rightarrow> ('p, 'q) formatModule list \<Rightarrow>
    formatMatchCheck list \<times> formatMatchCheck list \<times> formatFeature option \<Rightarrow>
    formatMatchCheck list \<times> formatMatchCheck list \<times> formatFeature option" where
  "diagnoseLoop L ext headContent [] st = st"
| "diagnoseLoop L ext headContent (m # ms) (cs, ps, matched) =
     (let check = checkFeatureDetail L (feature m) ext headContent
      in if fullMatch check \<and> matched = None
         then diagnoseLoop L ext headContent ms (cs @ [check], ps, Some (feature m))
         else if extensionMatch check \<and> \<not> fullMatch check
         then diagnoseLoop L ext headContent ms (cs @ [check], ps @ [check], matched)
         else diagnoseLoop L ext headContent ms (cs @ [check], ps, matched))"

definition diagnose :: "runtime \<Rightarrow> filesystem \<Rightarrow> ('p, 'q) formatSniffer \<Rightarrow> jsstring \<Rightarrow> exn + formatDiagnosis" where
  "diagnose L fs S filePath =
     (let ext = getExtension L filePath
      in case readFileHead L fs filePath HEAD_SIZE of
           Inl e \<Rightarrow> Inl e
         | Inr headContent \<Rightarrow>
             (case diagnoseLoop L ext headContent (formats S) ([], [], None) of
                (cs, ps, matched) \<Rightarrow>
                  Inr \<lparr>recognized = (matched \<noteq> None), matchedFormat = matched, checks = cs,
                       partialMatches = ps,
                       suggestion = generateSuggestion ext ps headContent\<rparr>))"

section \<open>The module entry: parsing\<close>

text \<open>
  The declarations of \<open>types.ts\<close> that \<open>index.ts\<close> reads. A \<open>ParsedMeta\<close> has a name, a
  platform and fields of its format, which are the extension of the record; members,
  messages and progress values are not inspected and stay type parameters.
\<close>

record parsedMeta =
  meta_name :: jsstring
  meta_platform :: jsstring

datatype ('z, 'mem, 'msg, 'prog) parseEvent =
    Meta "'z parsedMeta_scheme"
  | Members "'mem list"
  | Messages "'msg list"
  | Progress 'prog
  | ErrorEvent exn

text \<open>
  \<open>ParseOptions\<close>. The callbacks \<open>onProgress\<close> and \<open>onLog\<close> are sinks of the caller: what
  they are called with is not part of any value that the functions below return, so the
  options keep the path and the batch size.
\<close>

record parseOptions =
  filePath :: jsstring
  batchSize :: "nat option"

text \<open>
  Modelled from the spec: the interface \<open>Parser\<close> of \<open>types.ts\<close>, which is not among the
  sources. A parser has its feature, and \<open>parse\<close> produces from the options a finite
  sequence of events; a parser does not throw past its own event boundary, its failures
  are error events.
\<close>

record ('z, 'mem, 'msg, 'prog) parser =
  parser_feature :: formatFeature
  parse :: "parseOptions \<Rightarrow> ('z, 'mem, 'msg, 'prog) parseEvent list"

text \<open>
  A run of an asynchronous generator: the events it yields, in order, and whether it
  then returns or throws.
\<close>

record 'ev generated =
  yielded :: "'ev list"
  raised :: "exn option"

record ('z, 'mem, 'msg) parseResult =
  meta :: "'z parsedMeta_scheme"
  members :: "'mem list"
  messages :: "'msg list"

record fileInfo =
  info_name :: jsstring
  info_format :: jsstring
  info_platform :: jsstring
  messageCount :: nat
  memberCount :: nat
  fileSize :: nat

text \<open>
  The global \<open>sniffer\<close> of \<open>index.ts\<close>: a new sniffer with the modules of \<open>formats\<close>
  registered. The table \<open>formats\<close> is not among the sources and is the parameter \<open>fmts\<close>.
\<close>

definition sniffer :: "('p, 'q) formatModule list \<Rightarrow> ('p, 'q) formatSniffer" where
  "sniffer fmts = registerAll fmts createSniffer"

definition detectFormat :: "runtime \<Rightarrow> filesystem \<Rightarrow> ('p, 'q) formatModule list \<Rightarrow> jsstring \<Rightarrow> exn + formatFeature option" where
  "detectFormat L fs fmts path = sniff L fs (sniffer fmts) path"

definition diagnoseFormat :: "runtime \<Rightarrow> filesystem \<Rightarrow> ('p, 'q) formatModule list \<Rightarrow> jsstring \<Rightarrow> exn + formatDiagnosis" where
  "diagnoseFormat L fs fmts path = diagnose L fs (sniffer fmts) path"

text \<open>
  \<open>parseFile\<close>. When \<open>getParser\<close> throws, the generator throws before it yields; when no
  parser is found it yields one error event, whose message is "cannot recognise the file
  format: " and the path, and returns; otherwise it yields what the parser yields. The
  call of \<open>console.log\<close> is left out.
\<close>

definition parseFile :: "runtime \<Rightarrow> filesystem \<Rightarrow> (('z, 'mem, 'msg, 'prog) parser, 'q) formatModule list \<Rightarrow>
    parseOptions \<Rightarrow> ('z, 'mem, 'msg, 'prog) parseEvent generated" where
  "parseFile L fs fmts options =
     (case getParser L fs (sniffer fmts) (filePath options) of
        Inl e \<Rightarrow> \<lparr>yielded = [], raised = Some e\<rparr>
      | Inr None \<Rightarrow>
          \<lparr>yielded = [ErrorEvent (Error ([0x65E0, 0x6CD5, 0x8BC6, 0x522B, 0x6587, 0x4EF6, 0x683C, 0x5F0F,
                                           0x3A, 0x20] @ filePath options))],
           raised = None\<rparr>
      | Inr (Some p) \<Rightarrow> \<lparr>yielded = parse p options, raised = None\<rparr>)"

text \<open>
  The loop of \<open>parseFileSync\<close> over the events; its state is \<open>meta\<close>, \<open>members\<close> and
  \<open>messages\<close>, and an error event throws its data.
\<close>

fun parseFileSyncLoop :: "('z, 'mem, 'msg, 'prog) parseEvent list \<Rightarrow>
    'z parsedMeta_scheme option \<times> 'mem list \<times> 'msg list \<Rightarrow>
    exn + 'z parsedMeta_scheme option \<times> 'mem list \<times> 'msg list" where
  "parseFileSyncLoop [] st = Inr st"
| "parseFileSyncLoop (Meta d # evs) (m, mems, msgs) = parseFileSyncLoop evs (Some d, mems, msgs)"
| "parseFileSyncLoop (Members d # evs) (m, mems, msgs) = parseFileSyncLoop evs (m, mems @ d, msgs)"
| "parseFileSyncLoop (Messages d # evs) (m, mems, msgs) = parseFileSyncLoop evs (m, mems, msgs @ d)"
| "parseFileSyncLoop (Progress d # evs) (m, mems, msgs) = parseFileSyncLoop evs (m, mems, msgs)"
| "parseFileSyncLoop (ErrorEvent e # evs) (m, mems, msgs) = Inl e"

text \<open>
  \<open>parseFileSync\<close>. The message of its own error is "parsing failed: no meta information
  was obtained".
\<close>

definition parseFileSync :: "runtime \<Rightarrow> filesystem \<Rightarrow> (('z, 'mem, 'msg, 'prog) parser, 'q) formatModule list \<Rightarrow>
    jsstring \<Rightarrow> exn + ('z, 'mem, 'msg) parseResult" where
  "parseFileSync L fs fmts path =
     (let g = parseFile L fs fmts \<lparr>filePath = path, batchSize = None\<rparr>
      in case parseFileSyncLoop (yielded g) (None, [], []) of
           Inl e \<Rightarrow> Inl e
         | Inr (m, mems, msgs) \<Rightarrow>
             (case raised g of
                Some e \<Rightarrow> Inl e
              | None \<Rightarrow>
                  (case m of
                     None \<Rightarrow> Inl (Error [0x89E3, 0x6790, 0x5931, 0x8D25, 0xFF1A, 0x672A, 0x83B7, 0x53D6,
                                          0x5230, 0x5143, 0x4FE1, 0x606F])
                   | Some d \<Rightarrow> Inr \<lparr>meta = d, members = mems, messages = msgs\<rparr>)))"

text \<open>
  The loop of \<open>parseFileInfo\<close>; its state is \<open>name\<close>, \<open>platform\<close>, \<open>messageCount\<close> and
  \<open>memberCount\<close>.
\<close>

fun parseFileInfoLoop :: "('z, 'mem, 'msg, 'prog) parseEvent list \<Rightarrow>
    jsstring \<times> jsstring \<times> nat \<times> nat \<Rightarrow> exn + jsstring \<times> jsstring \<times> nat \<times> nat" where
  "parseFileInfoLoop [] st = Inr st"
| "parseFileInfoLoop (Meta d # evs) (nm, pf, msgCount, memCount) =
     parseFileInfoLoop evs (meta_name d, meta_platform d, msgCount, memCount)"
| "parseFileInfoLoop (Members d # evs) (nm, pf, msgCount, memCount) =
     parseFileInfoLoop evs (nm, pf, msgCount, memCount + length d)"
| "parseFileInfoLoop (Messages d # evs) (nm, pf, msgCount, memCount) =
     parseFileInfoLoop evs (nm, pf, msgCount + length d, memCount)"
| "parseFileInfoLoop (Progress d # evs) (nm, pf, msgCount, memCount) =
     parseFileInfoLoop evs (nm, pf, msgCount, memCount)"
| "parseFileInfoLoop (ErrorEvent e # evs) (nm, pf, msgCount, memCount) = Inl e"

text \<open>
  \<open>parseFileInfo\<close>. The default name is the string of the four code units U+672A, U+77E5,
  U+7FA4, U+804A ("unknown group chat"); \<open>fs.statSync(filePath).size\<close> is the length of
  the file.
\<close>

definition parseFileInfo :: "runtime \<Rightarrow> filesystem \<Rightarrow> (('z, 'mem, 'msg, 'prog) parser, 'q) formatModule list \<Rightarrow>
    jsstring \<Rightarrow> exn + fileInfo" where
  "parseFileInfo L fs fmts path =
     (case sniff L fs (sniffer fmts) path of
        Inl e \<Rightarrow> Inl e
      | Inr None \<Rightarrow> Inl (Error ([0x65E0, 0x6CD5, 0x8BC6, 0x522B, 0x6587, 0x4EF6, 0x683C, 0x5F0F,
                                  0x3A, 0x20] @ path))
      | Inr (Some feat) \<Rightarrow>
          (let g = parseFile L fs fmts \<lparr>filePath = path, batchSize = None\<rparr>
           in case parseFileInfoLoop (yielded g) ([0x672A, 0x77E5, 0x7FA4, 0x804A], feature_platform feat, 0, 0) of
                Inl e \<Rightarrow> Inl e
              | Inr (nm, pf, msgCount, memCount) \<Rightarrow>
                  (case raised g of
                     Some e \<Rightarrow> Inl e
                   | None \<Rightarrow>
                       (case fs path of
                          Inl e \<Rightarrow> Inl e
                        | Inr bytes \<Rightarrow>
                            Inr \<lparr>info_name = nm, info_format = feature_name feat, info_platform = pf,
                                 messageCount = msgCount, memberCount = memCount,
                                 fileSize = length bytes\<rparr>))))"

section \<open>The sniffer with pattern objects\<close>

text \<open>
  The first model reads a pattern as a predicate and the constructor of patterns as a
  total function. In JavaScript a \<open>RegExp\<close> is an object with a property \<open>lastIndex\<close>,
  which \<open>test\<close> reads and writes when the pattern carries the \<open>g\<close> or the \<open>y\<close> flag, and
  \<open>new RegExp\<close> raises a \<open>SyntaxError\<close> on a malformed pattern text. This section models
  the sniffer again with both. A function that calls \<open>test\<close> on a registered pattern takes
  the store of the \<open>lastIndex\<close> values and returns it, and a function that builds a pattern
  may raise. The names are those of the source with the suffix \<open>S\<close>.
\<close>

text \<open>
  A pattern object has an address, and the store holds the \<open>lastIndex\<close> of the object at
  each address: two occurrences of one object in the registry share it. \<open>matchFrom r i s\<close>
  is the end index of the match that the matcher of the pattern finds in \<open>s\<close> when it is
  started at index \<open>i\<close>, if it finds one. \<open>flagged\<close> says if the pattern carries \<open>g\<close> or \<open>y\<close>.
\<close>

type_synonym store = "nat \<Rightarrow> nat"

record regExpObject =
  address :: nat
  matchFrom :: "nat \<Rightarrow> jsstring \<Rightarrow> nat option"
  flagged :: bool

text \<open>
  \<open>new RegExp(source)\<close>, with no flags: a \<open>SyntaxError\<close>, or a pattern that keeps no
  position, which is a predicate.
\<close>

type_synonym constructor = "jsstring \<Rightarrow> exn + regexp"

text \<open>
  The data of the sniffer with pattern objects in the place of predicates. A
  \<open>FormatMatchCheck\<close> holds no pattern and is that of the first model.
\<close>

record signaturesS =
  headS :: "regExpObject list option"
  requiredFieldsS :: "jsstring list option"
  fieldPatternsS :: "(jsstring \<times> regExpObject) list option"

record formatFeatureS =
  featureS_id :: jsstring
  featureS_name :: jsstring
  featureS_platform :: jsstring
  priorityS :: int
  extensionsS :: "jsstring list"
  signaturesS :: signaturesS

record ('p, 'q) formatModuleS =
  featureS :: formatFeatureS
  parserS :: 'p
  preprocessorS :: "'q option"

record ('p, 'q) formatSnifferS =
  formatsS :: "('p, 'q) formatModuleS list"

record formatDiagnosisS =
  recognizedS :: bool
  matchedFormatS :: "formatFeatureS option"
  checksS :: "formatMatchCheck list"
  partialMatchesS :: "formatMatchCheck list"
  suggestionS :: jsstring

text \<open>
  \<open>RegExp.prototype.test\<close>. A flagged pattern starts at its \<open>lastIndex\<close>; it fails and sets
  \<open>lastIndex\<close> to 0 when \<open>lastIndex\<close> exceeds the length of the string or when nothing is
  found, and it sets \<open>lastIndex\<close> to the end of the match when there is one. A pattern
  without flags starts at 0 and writes nothing.
\<close>

definition test :: "regExpObject \<Rightarrow> jsstring \<Rightarrow> store \<Rightarrow> bool \<times> store" where
  "test r s \<sigma> =
     (if flagged r then
        (if \<sigma> (address r) > length s then (False, \<sigma>(address r := 0))
         else (case matchFrom r (\<sigma> (address r)) s of
                 None \<Rightarrow> (False, \<sigma>(address r := 0))
               | Some e \<Rightarrow> (True, \<sigma>(address r := e))))
      else (matchFrom r 0 s \<noteq> None, \<sigma>))"

text \<open>
  \<open>patterns.some(...)\<close> stops at the first pattern that matches.
\<close>

fun matchHeadSignaturesS :: "jsstring \<Rightarrow> regExpObject list \<Rightarrow> store \<Rightarrow> bool \<times> store" where
  "matchHeadSignaturesS headContent [] \<sigma> = (False, \<sigma>)"
| "matchHeadSignaturesS headContent (pattern # patterns) \<sigma> =
     (case test pattern headContent \<sigma> of
        (found, \<sigma>') \<Rightarrow>
          if found then (True, \<sigma>') else matchHeadSignaturesS headContent patterns \<sigma>')"

text \<open>
  \<open>fields.every(...)\<close> stops at the first field that is not found; the pattern of a field
  is built when the field is reached, and the error of the constructor passes.
\<close>

fun matchRequiredFieldsS :: "constructor \<Rightarrow> jsstring \<Rightarrow> jsstring list \<Rightarrow> exn + bool" where
  "matchRequiredFieldsS ctor headContent [] = Inr True"
| "matchRequiredFieldsS ctor headContent (field # flds) =
     (case ctor (fieldPatternSource field) of
        Inl e \<Rightarrow> Inl e
      | Inr pattern \<Rightarrow>
          if pattern headContent \<or> includesStr headContent ([0x22] @ field @ [0x22])
          then matchRequiredFieldsS ctor headContent flds
          else Inr False)"

text \<open>
  The loop of \<open>checkRequiredFieldsDetail\<close> builds the pattern of every field.
\<close>

fun checkRequiredFieldsLoopS :: "constructor \<Rightarrow> jsstring \<Rightarrow> jsstring list \<Rightarrow> jsstring list \<Rightarrow>
    exn + jsstring list" where
  "checkRequiredFieldsLoopS ctor headContent [] missing = Inr missing"
| "checkRequiredFieldsLoopS ctor headContent (field # flds) missing =
     (case ctor (fieldPatternSource field) of
        Inl e \<Rightarrow> Inl e
      | Inr pattern \<Rightarrow>
          let found = (pattern headContent \<or> includesStr headContent ([0x22] @ field @ [0x22]))
          in checkRequiredFieldsLoopS ctor headContent flds
               (if \<not> found then missing @ [field] else missing))"

definition checkRequiredFieldsDetailS :: "constructor \<Rightarrow> jsstring \<Rightarrow> jsstring list \<Rightarrow>
    exn + bool \<times> jsstring list" where
  "checkRequiredFieldsDetailS ctor headContent flds =
     (case checkRequiredFieldsLoopS ctor headContent flds [] of
        Inl e \<Rightarrow> Inl e
      | Inr missing \<Rightarrow> Inr (length missing = 0, missing))"

text \<open>
  The loop over the entries of \<open>fieldPatterns\<close>, which stops at the first failure.
\<close>

fun fieldPatternsLoopS :: "jsstring \<Rightarrow> (jsstring \<times> regExpObject) list \<Rightarrow> store \<Rightarrow> bool \<times> store" where
  "fieldPatternsLoopS headContent [] \<sigma> = (True, \<sigma>)"
| "fieldPatternsLoopS headContent ((key, pattern) # entries) \<sigma> =
     (case test pattern headContent \<sigma> of
        (found, \<sigma>') \<Rightarrow>
          if \<not> found then (False, \<sigma>') else fieldPatternsLoopS headContent entries \<sigma>')"

text \<open>
  \<open>matchFeature\<close> returns false at the first check that fails; the checks behind it are
  not run, so their patterns are neither built nor tested.
\<close>

definition matchFeatureS :: "constructor \<Rightarrow> formatFeatureS \<Rightarrow> jsstring \<Rightarrow> jsstring \<Rightarrow> store \<Rightarrow>
    (exn + bool) \<times> store" where
  "matchFeatureS ctor feat ext headContent \<sigma> =
     (if ext \<notin> set (extensionsS feat) then (Inr False, \<sigma>)
      else
        (case (case headS (signaturesS feat) of
                 Some hs \<Rightarrow> if length hs > 0 then matchHeadSignaturesS headContent hs \<sigma> else (True, \<sigma>)
               | None \<Rightarrow> (True, \<sigma>)) of
           (headOk, \<sigma>1) \<Rightarrow>
             if \<not> headOk then (Inr False, \<sigma>1)
             else
               (case (case requiredFieldsS (signaturesS feat) of
                        Some flds \<Rightarrow> if length flds > 0 then matchRequiredFieldsS ctor headContent flds
                                     else Inr True
                      | None \<Rightarrow> Inr True) of
                  Inl e \<Rightarrow> (Inl e, \<sigma>1)
                | Inr fieldsOk \<Rightarrow>
                    if \<not> fieldsOk then (Inr False, \<sigma>1)
                    else
                      (case fieldPatternsS (signaturesS feat) of
                         Some entries \<Rightarrow>
                           (case fieldPatternsLoopS headContent entries \<sigma>1 of
                              (ok, \<sigma>2) \<Rightarrow> (Inr ok, \<sigma>2))
                       | None \<Rightarrow> (Inr True, \<sigma>1)))))"

text \<open>
  \<open>sniff\<close> and \<open>getParser\<close> read the head window first; the error of \<open>readFileHead\<close> passes
  before any pattern is touched.
\<close>

fun sniffLoopS :: "constructor \<Rightarrow> jsstring \<Rightarrow> jsstring \<Rightarrow> ('p, 'q) formatModuleS list \<Rightarrow> store \<Rightarrow>
    (exn + formatFeatureS option) \<times> store" where
  "sniffLoopS ctor ext headContent [] \<sigma> = (Inr None, \<sigma>)"
| "sniffLoopS ctor ext headContent (m # ms) \<sigma> =
     (case matchFeatureS ctor (featureS m) ext headContent \<sigma> of
        (Inl e, \<sigma>') \<Rightarrow> (Inl e, \<sigma>')
      | (Inr matched, \<sigma>') \<Rightarrow>
          if matched then (Inr (Some (featureS m)), \<sigma>')
          else sniffLoopS ctor ext headContent ms \<sigma>')"

definition sniffS :: "constructor \<Rightarrow> runtime \<Rightarrow> filesystem \<Rightarrow> ('p, 'q) formatSnifferS \<Rightarrow> jsstring \<Rightarrow>
    store \<Rightarrow> (exn + formatFeatureS option) \<times> store" where
  "sniffS ctor L fs S path \<sigma> =
     (let ext = getExtension L path
      in case readFileHead L fs path HEAD_SIZE of
           Inl e \<Rightarrow> (Inl e, \<sigma>)
         | Inr headContent \<Rightarrow> sniffLoopS ctor ext headContent (formatsS S) \<sigma>)"

fun getParserLoopS :: "constructor \<Rightarrow> jsstring \<Rightarrow> jsstring \<Rightarrow> ('p, 'q) formatModuleS list \<Rightarrow> store \<Rightarrow>
    (exn + 'p option) \<times> store" where
  "getParserLoopS ctor ext headContent [] \<sigma> = (Inr None, \<sigma>)"
| "getParserLoopS ctor ext headContent (m # ms) \<sigma> =
     (case matchFeatureS ctor (featureS m) ext headContent \<sigma> of
        (Inl e, \<sigma>') \<Rightarrow> (Inl e, \<sigma>')
      | (Inr matched, \<sigma>') \<Rightarrow>
          if matched then (Inr (Some (parserS m)), \<sigma>')
          else getParserLoopS ctor ext headContent ms \<sigma>')"

definition getParserS :: "constructor \<Rightarrow> runtime \<Rightarrow> filesystem \<Rightarrow> ('p, 'q) formatSnifferS \<Rightarrow> jsstring \<Rightarrow>
    store \<Rightarrow> (exn + 'p option) \<times> store" where
  "getParserS ctor L fs S path \<sigma> =
     (let ext = getExtension L path
      in case readFileHead L fs path HEAD_SIZE of
           Inl e \<Rightarrow> (Inl e, \<sigma>)
         | Inr headContent \<Rightarrow> getParserLoopS ctor ext headContent (formatsS S) \<sigma>)"

text \<open>
  \<open>checkFeatureDetail\<close> runs the three checks of the content one after the other, whatever
  the result of the former ones; only the loop over \<open>fieldPatterns\<close> stops early.
\<close>

definition checkFeatureDetailS :: "constructor \<Rightarrow> formatFeatureS \<Rightarrow> jsstring \<Rightarrow> jsstring \<Rightarrow> store \<Rightarrow>
    (exn + formatMatchCheck) \<times> store" where
  "checkFeatureDetailS ctor feat ext headContent \<sigma> =
     (let result = \<lparr>formatId = featureS_id feat, formatName = featureS_name feat,
                     extensionMatch = (ext \<in> set (extensionsS feat)),
                     headSignatureMatch = None, requiredFieldsMatch = None,
                     missingFields = [], fullMatch = False\<rparr>
      in if \<not> extensionMatch result then (Inr result, \<sigma>)
         else
           (case (case headS (signaturesS feat) of
                    Some hs \<Rightarrow>
                      if length hs > 0
                      then (case matchHeadSignaturesS headContent hs \<sigma> of
                              (found, \<sigma>') \<Rightarrow> (result\<lparr>headSignatureMatch := Some found\<rparr>, \<sigma>'))
                      else (result, \<sigma>)
                  | None \<Rightarrow> (result, \<sigma>)) of
              (result1, \<sigma>1) \<Rightarrow>
                (case (case requiredFieldsS (signaturesS feat) of
                         Some flds \<Rightarrow>
                           if length flds > 0
                           then (case checkRequiredFieldsDetailS ctor headContent flds of
                                   Inl e \<Rightarrow> Inl e
                                 | Inr (allMatch, missing) \<Rightarrow>
                                     Inr (result1\<lparr>requiredFieldsMatch := Some allMatch,
                                                  missingFields := missing\<rparr>))
                           else Inr result1
                       | None \<Rightarrow> Inr result1) of
                   Inl e \<Rightarrow> (Inl e, \<sigma>1)
                 | Inr result2 \<Rightarrow>
                     (case (case fieldPatternsS (signaturesS feat) of
                              Some entries \<Rightarrow> fieldPatternsLoopS headContent entries \<sigma>1
                            | None \<Rightarrow> (True, \<sigma>1)) of
                        (fieldPatternsMatch, \<sigma>2) \<Rightarrow>
                          (Inr (result2\<lparr>fullMatch :=
                                  extensionMatch result2 \<and>
                                  (headSignatureMatch result2 = None \<or> headSignatureMatch result2 = Some True) \<and>
                                  (requiredFieldsMatch result2 = None \<or> requiredFieldsMatch result2 = Some True) \<and>
                                  fieldPatternsMatch\<rparr>), \<sigma>2)))))"

text \<open>
  The loop of \<open>diagnose\<close> with its three variables \<open>checks\<close>, \<open>partialMatches\<close> and
  \<open>matchedFormat\<close>. \<open>diagnose\<close> assigns to no field of the sniffer, of a module or of a
  feature; the \<open>lastIndex\<close> of the registered patterns is the only state of the registry
  that a call can write, through \<open>test\<close>.
\<close>

fun diagnoseLoopS :: "constructor \<Rightarrow> jsstring \<Rightarrow> jsstring \<Rightarrow> ('p, 'q) formatModuleS list \<Rightarrow>
    formatMatchCheck list \<times> formatMatchCheck list \<times> formatFeatureS option \<Rightarrow> store \<Rightarrow>
    (exn + formatMatchCheck list \<times> formatMatchCheck list \<times> formatFeatureS option) \<times> store" where
  "diagnoseLoopS ctor ext headContent [] st \<sigma> = (Inr st, \<sigma>)"
| "diagnoseLoopS ctor ext headContent (m # ms) (cs, ps, matched) \<sigma> =
     (case checkFeatureDetailS ctor (featureS m) ext headContent \<sigma> of
        (Inl e, \<sigma>') \<Rightarrow> (Inl e, \<sigma>')
      | (Inr check, \<sigma>') \<Rightarrow>
          if fullMatch check \<and> matched = None
          then diagnoseLoopS ctor ext headContent ms (cs @ [check], ps, Some (featureS m)) \<sigma>'
          else if extensionMatch check \<and> \<not> fullMatch check
          then diagnoseLoopS ctor ext headContent ms (cs @ [check], ps @ [check], matched) \<sigma>'
          else diagnoseLoopS ctor ext headContent ms (cs @ [check], ps, matched) \<sigma>')"

definition diagnoseS :: "constructor \<Rightarrow> runtime \<Rightarrow> filesystem \<Rightarrow> ('p, 'q) formatSnifferS \<Rightarrow> jsstring \<Rightarrow>
    store \<Rightarrow> (exn + formatDiagnosisS) \<times> store" where
  "diagnoseS ctor L fs S path \<sigma> =
     (let ext = getExtension L path
      in case readFileHead L fs path HEAD_SIZE of
           Inl e \<Rightarrow> (Inl e, \<sigma>)
         | Inr headContent \<Rightarrow>
             (case diagnoseLoopS ctor ext headContent (formatsS S) ([], [], None) \<sigma> of
                (Inl e, \<sigma>') \<Rightarrow> (Inl e, \<sigma>')
              | (Inr (cs, ps, matched), \<sigma>') \<Rightarrow>
                  (Inr \<lparr>recognizedS = (matched \<noteq> None), matchedFormatS = matched, checksS = cs,
                        partialMatchesS = ps,
                        suggestionS = generateSuggestion ext ps headContent\<rparr>, \<sigma>')))"

text \<open>
  \<open>parseFile\<close> on a sniffer object: \<open>getParser\<close> is called before the first \<open>yield\<close>, so an
  error that it throws is raised by the generator with no event yielded.
\<close>

definition parseFileS :: "constructor \<Rightarrow> runtime \<Rightarrow> filesystem \<Rightarrow>
    (('z, 'mem, 'msg, 'prog) parser, 'q) formatSnifferS \<Rightarrow> parseOptions \<Rightarrow> store \<Rightarrow>
    ('z, 'mem, 'msg, 'prog) parseEvent generated \<times> store" where
  "parseFileS ctor L fs S options \<sigma> =
     (case getParserS ctor L fs S (filePath options) \<sigma> of
        (Inl e, \<sigma>') \<Rightarrow> (\<lparr>yielded = [], raised = Some e\<rparr>, \<sigma>')
      | (Inr None, \<sigma>') \<Rightarrow>
          (\<lparr>yielded = [ErrorEvent (Error ([0x65E0, 0x6CD5, 0x8BC6, 0x522B, 0x6587, 0x4EF6, 0x683C, 0x5F0F,
                                            0x3A, 0x20] @ filePath options))],
            raised = None\<rparr>, \<sigma>')
      | (Inr (Some p), \<sigma>') \<Rightarrow> (\<lparr>yielded = parse p options, raised = None\<rparr>, \<sigma>'))"

section \<open>The properties in the words of the specification\<close>

text \<open>
  A required field name is textually discoverable in the head window when the pattern
  built from it matches the window or the window contains the name between double
  quotes.
\<close>

definition textuallyDiscoverable :: "runtime \<Rightarrow> jsstring \<Rightarrow> jsstring \<Rightarrow> bool" where
  "textuallyDiscoverable L headContent field \<longleftrightarrow>
     RegExp_new L (fieldPatternSource field) headContent \<or>
     includesStr headContent ([0x22] @ field @ [0x22])"


text \<open>
  What a sequence of events holds: its meta values, its batches of members and of
  messages, and the data of its error events, each in the order of emission.
\<close>

fun metasOf :: "('z, 'mem, 'msg, 'prog) parseEvent list \<Rightarrow> 'z parsedMeta_scheme list" where
  "metasOf [] = []"
| "metasOf (Meta d # evs) = d # metasOf evs"
| "metasOf (ev # evs) = metasOf evs"

fun membersBatches :: "('z, 'mem, 'msg, 'prog) parseEvent list \<Rightarrow> 'mem list list" where
  "membersBatches [] = []"
| "membersBatches (Members d # evs) = d # membersBatches evs"
| "membersBatches (ev # evs) = membersBatches evs"

fun messagesBatches :: "('z, 'mem, 'msg, 'prog) parseEvent list \<Rightarrow> 'msg list list" where
  "messagesBatches [] = []"
| "messagesBatches (Messages d # evs) = d # messagesBatches evs"
| "messagesBatches (ev # evs) = messagesBatches evs"

fun errorsOf :: "('z, 'mem, 'msg, 'prog) parseEvent list \<Rightarrow> exn list" where
  "errorsOf [] = []"
| "errorsOf (ErrorEvent e # evs) = e # errorsOf evs"
| "errorsOf (ev # evs) = errorsOf evs"

text \<open>
  For the sniffer with pattern objects: the predicate of a pattern started at 0; a
  feature none of whose patterns carries a flag; a feature whose required field names
  all give a pattern text that the constructor accepts; and the four checks again.
\<close>

definition purePattern :: "regExpObject \<Rightarrow> regexp" where
  "purePattern r = (\<lambda>s. matchFrom r 0 s \<noteq> None)"

definition unflaggedFeature :: "formatFeatureS \<Rightarrow> bool" where
  "unflaggedFeature feat \<longleftrightarrow>
     (case headS (signaturesS feat) of
        Some hs \<Rightarrow> list_all (\<lambda>r. \<not> flagged r) hs
      | None \<Rightarrow> True) \<and>
     (case fieldPatternsS (signaturesS feat) of
        Some entries \<Rightarrow> list_all (\<lambda>entry. \<not> flagged (snd entry)) entries
      | None \<Rightarrow> True)"

definition wellFormedFields :: "constructor \<Rightarrow> formatFeatureS \<Rightarrow> bool" where
  "wellFormedFields ctor feat \<longleftrightarrow>
     (case requiredFieldsS (signaturesS feat) of
        Some flds \<Rightarrow> list_all (\<lambda>field. \<not> isl (ctor (fieldPatternSource field))) flds
      | None \<Rightarrow> True)"

definition textuallyDiscoverableS :: "constructor \<Rightarrow> jsstring \<Rightarrow> jsstring \<Rightarrow> bool" where
  "textuallyDiscoverableS ctor headContent field \<longleftrightarrow>
     (case ctor (fieldPatternSource field) of
        Inr pattern \<Rightarrow> pattern headContent \<or> includesStr headContent ([0x22] @ field @ [0x22])
      | Inl e \<Rightarrow> False)"

definition passesAllChecksS :: "constructor \<Rightarrow> formatFeatureS \<Rightarrow> jsstring \<Rightarrow> jsstring \<Rightarrow> bool" where
  "passesAllChecksS ctor feat ext headContent \<longleftrightarrow>
     ext \<in> set (extensionsS feat) \<and>
     (case headS (signaturesS feat) of
        Some (p # ps) \<Rightarrow> list_ex (\<lambda>r. purePattern r headContent) (p # ps)
      | _ \<Rightarrow> True) \<and>
     (case requiredFieldsS (signaturesS feat) of
        Some (f # fs) \<Rightarrow> list_all (textuallyDiscoverableS ctor headContent) (f # fs)
      | _ \<Rightarrow> True) \<and>
     (case fieldPatternsS (signaturesS feat) of
        Some entries \<Rightarrow> list_all (\<lambda>entry. purePattern (snd entry) headContent) entries
      | None \<Rightarrow> True)"

text \<open>
  The feature, the registry and the diagnosis of the first model that those with pattern
  objects stand for when every pattern is read as its predicate.
\<close>

definition pureFeature :: "formatFeatureS \<Rightarrow> formatFeature" where
  "pureFeature feat =
     \<lparr>feature_id = featureS_id feat, feature_name = featureS_name feat,
      feature_platform = featureS_platform feat, priority = priorityS feat,
      extensions = extensionsS feat,
      signatures =
        \<lparr>head = map_option (map purePattern) (headS (signaturesS feat)),
         requiredFields = requiredFieldsS (signaturesS feat),
         fieldPatterns = map_option (map (\<lambda>entry. (fst entry, purePattern (snd entry))))
                           (fieldPatternsS (signaturesS feat))\<rparr>\<rparr>"

definition pureSniffer :: "('p, 'q) formatSnifferS \<Rightarrow> ('p, 'q) formatSniffer" where
  "pureSniffer S =
     \<lparr>formats = map (\<lambda>m. \<lparr>feature = pureFeature (featureS m), parser = parserS m,
                            preprocessor = preprocessorS m\<rparr>) (formatsS S)\<rparr>"

definition pureDiagnosis :: "formatDiagnosisS \<Rightarrow> formatDiagnosis" where
  "pureDiagnosis d =
     \<lparr>recognized = recognizedS d, matchedFormat = map_option pureFeature (matchedFormatS d),
      checks = checksS d, partialMatches = partialMatchesS d, suggestion = suggestionS d\<rparr>"

section \<open>An example runtime, registry and file system\<close>

text \<open>
  The examples below run the definitions on concrete inputs. Their runtime implements
  the platform functions on the ASCII names and texts the examples use. Its pattern
  constructor reads the fragment of the pattern language that a pattern built from a
  plain field name needs: a literal character, \<open>\s*\<close>, \<open>.\<close> and \<open>.*\<close>; a pattern matches
  when it matches at some position of the text. A source outside the fragment matches
  nothing in the example.
\<close>

datatype reItem = Lit "16 word" | AnyChar | SpaceStar | AnyStar

definition isLineTerminator :: "16 word \<Rightarrow> bool" where
  "isLineTerminator c \<longleftrightarrow> c = 0xA \<or> c = 0xD \<or> c = 0x2028 \<or> c = 0x2029"

definition isSyntaxCharacter :: "16 word \<Rightarrow> bool" where
  "isSyntaxCharacter c \<longleftrightarrow> c \<in> set [0x5E, 0x24, 0x5C, 0x2E, 0x2A, 0x2B, 0x3F, 0x28, 0x29, 0x5B, 0x5D, 0x7B, 0x7D, 0x7C, 0x2F]"

fun compileItems :: "jsstring \<Rightarrow> reItem list option" where
  "compileItems [] = Some []"
| "compileItems (c # cs) =
     (if c = 0x5C then
        (case cs of
           s # st # rest \<Rightarrow>
             if s = 0x73 \<and> st = 0x2A then map_option ((#) SpaceStar) (compileItems rest) else None
         | _ \<Rightarrow> None)
      else if c = 0x2E then
        (case cs of
           st # rest \<Rightarrow>
             if st = 0x2A then map_option ((#) AnyStar) (compileItems rest)
             else map_option ((#) AnyChar) (compileItems cs)
         | [] \<Rightarrow> Some [AnyChar])
      else if isSyntaxCharacter c then None
      else map_option ((#) (Lit c)) (compileItems cs))"

fun matchHere :: "reItem list \<Rightarrow> jsstring \<Rightarrow> bool" where
  "matchHere [] s = True"
| "matchHere (Lit c # ri) [] = False"
| "matchHere (Lit c # ri) (x # xs) = (x = c \<and> matchHere ri xs)"
| "matchHere (AnyChar # ri) [] = False"
| "matchHere (AnyChar # ri) (x # xs) = (\<not> isLineTerminator x \<and> matchHere ri xs)"
| "matchHere (SpaceStar # ri) [] = matchHere ri []"
| "matchHere (SpaceStar # ri) (x # xs) =
     (matchHere ri (x # xs) \<or> (isWhiteSpace x \<and> matchHere (SpaceStar # ri) xs))"
| "matchHere (AnyStar # ri) [] = matchHere ri []"
| "matchHere (AnyStar # ri) (x # xs) =
     (matchHere ri (x # xs) \<or> (\<not> isLineTerminator x \<and> matchHere (AnyStar # ri) xs))"

fun matchAnywhere :: "reItem list \<Rightarrow> jsstring \<Rightarrow> bool" where
  "matchAnywhere ri [] = matchHere ri []"
| "matchAnywhere ri (x # xs) = (matchHere ri (x # xs) \<or> matchAnywhere ri xs)"

definition exampleRegExp :: "jsstring \<Rightarrow> regexp" where
  "exampleRegExp source = (case compileItems source of
                             Some ri \<Rightarrow> matchAnywhere ri
                           | None \<Rightarrow> (\<lambda>s. False))"

text \<open>
  The extension of the last segment of a path: from its last dot, when that dot is not
  its first character. Lower case and decoding are those of ASCII.
\<close>

definition exampleExtname :: "jsstring \<Rightarrow> jsstring" where
  "exampleExtname p =
     (let base = rev (takeWhile (\<lambda>c. c \<noteq> 0x2F) (rev p))
      in if length (dropWhile (\<lambda>c. c \<noteq> 0x2E) (rev base)) \<le> 1 then []
         else 0x2E # rev (takeWhile (\<lambda>c. c \<noteq> 0x2E) (rev base)))"

definition exampleRuntime :: runtime where
  "exampleRuntime =
     \<lparr>extname = exampleExtname,
      toLowerCase = map (\<lambda>c. if 0x41 \<le> c \<and> c \<le> 0x5A then c + 0x20 else c),
      toString_utf8 = map (\<lambda>b. if b < 0x80 then ucast b else 0xFFFD),
      RegExp_new = exampleRegExp\<rparr>"

text \<open>
  Three formats: A and B read \<open>.json\<close> files and require the fields \<open>a\<close>, \<open>b\<close> and \<open>a\<close>, \<open>c\<close>; B
  has the smaller priority number. T reads \<open>.txt\<close> files that start with \<open>CHAT\<close>. The parser
  of A yields two meta events, the parser of B none, the parser of T an error event.
\<close>

definition featureA :: formatFeature where
  "featureA = \<lparr>feature_id = js ''fmtA'', feature_name = js ''Format A'', feature_platform = js ''pa'',
               priority = 2, extensions = [js ''.json''],
               signatures = \<lparr>head = None, requiredFields = Some [js ''a'', js ''b''],
                             fieldPatterns = None\<rparr>\<rparr>"

definition featureB :: formatFeature where
  "featureB = \<lparr>feature_id = js ''fmtB'', feature_name = js ''Format B'', feature_platform = js ''pb'',
               priority = 1, extensions = [js ''.json''],
               signatures = \<lparr>head = None, requiredFields = Some [js ''a'', js ''c''],
                             fieldPatterns = None\<rparr>\<rparr>"

definition featureT :: formatFeature where
  "featureT = \<lparr>feature_id = js ''fmtT'', feature_name = js ''Format T'', feature_platform = js ''pt'',
               priority = 3, extensions = [js ''.txt''],
               signatures = \<lparr>head = Some [\<lambda>s. startsWith s (js ''CHAT'')], requiredFields = None,
                             fieldPatterns = None\<rparr>\<rparr>"

definition moduleA :: "((unit, nat, nat, nat) parser, unit) formatModule" where
  "moduleA =
     \<lparr>feature = featureA,
      parser = \<lparr>parser_feature = featureA,
                parse = (\<lambda>options. [Meta \<lparr>meta_name = js ''first'', meta_platform = js ''pa''\<rparr>,
                                     Members [1, 2], Progress 50, Messages [10, 11],
                                     Meta \<lparr>meta_name = js ''second'', meta_platform = js ''pa''\<rparr>,
                                     Messages [12], Members [3]])\<rparr>,
      preprocessor = None\<rparr>"

definition moduleB :: "((unit, nat, nat, nat) parser, unit) formatModule" where
  "moduleB =
     \<lparr>feature = featureB,
      parser = \<lparr>parser_feature = featureB,
                parse = (\<lambda>options. [Members [1], Messages [10, 11], Progress 100, Messages [12]])\<rparr>,
      preprocessor = None\<rparr>"

definition moduleT :: "((unit, nat, nat, nat) parser, unit) formatModule" where
  "moduleT =
     \<lparr>feature = featureT,
      parser = \<lparr>parser_feature = featureT,
                parse = (\<lambda>options. [Members [1], ErrorEvent (Error (js ''bad line'')), Messages [10]])\<rparr>,
      preprocessor = None\<rparr>"

definition exampleFormats :: "((unit, nat, nat, nat) parser, unit) formatModule list" where
  "exampleFormats = [moduleA, moduleB, moduleT]"

text \<open>
  The files: \<open>ab.json\<close> holds \<open>{"a":1,"b":2}\<close>, \<open>ac.json\<close> holds \<open>{"a":1,"c":2}\<close>, \<open>a.JSON\<close> holds
  \<open>{"a" : 1}\<close>, \<open>log.txt\<close> holds \<open>CHAT log\<close> and \<open>table.csv\<close> holds \<open>a,b\<close>; the two big files
  share their first 8192 bytes, which are spaces, and differ after them. No other path
  can be opened. The heads are the decoded head windows of the small files.
\<close>

definition fileAB :: "byte list" where
  "fileAB = [0x7B, 0x22, 0x61, 0x22, 0x3A, 0x31, 0x2C, 0x22, 0x62, 0x22, 0x3A, 0x32, 0x7D]"

definition fileAC :: "byte list" where
  "fileAC = [0x7B, 0x22, 0x61, 0x22, 0x3A, 0x31, 0x2C, 0x22, 0x63, 0x22, 0x3A, 0x32, 0x7D]"

definition fileA :: "byte list" where
  "fileA = [0x7B, 0x22, 0x61, 0x22, 0x20, 0x3A, 0x20, 0x31, 0x7D]"

definition fileLog :: "byte list" where
  "fileLog = [0x43, 0x48, 0x41, 0x54, 0x20, 0x6C, 0x6F, 0x67]"

definition fileCsv :: "byte list" where
  "fileCsv = [0x61, 0x2C, 0x62]"

definition fileBig1 :: "byte list" where
  "fileBig1 = replicate 8192 0x20 @ [0x7B]"

definition fileBig2 :: "byte list" where
  "fileBig2 = replicate 8192 0x20 @ [0x5B, 0x5D]"

definition headAB :: jsstring where
  "headAB = [0x7B, 0x22, 0x61, 0x22, 0x3A, 0x31, 0x2C, 0x22, 0x62, 0x22, 0x3A, 0x32, 0x7D]"

definition headAC :: jsstring where
  "headAC = [0x7B, 0x22, 0x61, 0x22, 0x3A, 0x31, 0x2C, 0x22, 0x63, 0x22, 0x3A, 0x32, 0x7D]"

definition headA :: jsstring where
  "headA = [0x7B, 0x22, 0x61, 0x22, 0x20, 0x3A, 0x20, 0x31, 0x7D]"

definition headLog :: jsstring where
  "headLog = [0x43, 0x48, 0x41, 0x54, 0x20, 0x6C, 0x6F, 0x67]"

definition headCsv :: jsstring where
  "headCsv = [0x61, 0x2C, 0x62]"

definition exampleFiles :: filesystem where
  "exampleFiles path =
     (if path = js ''ab.json'' then Inr fileAB
      else if path = js ''ac.json'' then Inr fileAC
      else if path = js ''a.JSON'' then Inr fileA
      else if path = js ''log.txt'' then Inr fileLog
      else if path = js ''table.csv'' then Inr fileCsv
      else if path = js ''big1.json'' then Inr fileBig1
      else if path = js ''big2.JSON'' then Inr fileBig2
      else Inl (SystemError (js ''ENOENT'')))"

text \<open>
  The same file system after \<open>big1.json\<close> was rewritten beyond its head window.
\<close>

definition exampleFilesLater :: filesystem where
  "exampleFilesLater = exampleFiles(js ''big1.json'' := Inr fileBig2)"

text \<open>
  A constructor for the examples: it returns the pattern of the example runtime for a
  source in the fragment, raises a \<open>SyntaxError\<close> for a source outside the fragment with
  more opening than closing parentheses, and returns a pattern that matches nothing
  otherwise.
\<close>

definition exampleConstructor :: constructor where
  "exampleConstructor source =
     (case compileItems source of
        Some ri \<Rightarrow> Inr (matchAnywhere ri)
      | None \<Rightarrow>
          if length (filter (\<lambda>c. c = 0x28) source) > length (filter (\<lambda>c. c = 0x29) source)
          then Inl (SyntaxError (js ''Unterminated group''))
          else Inr (\<lambda>s. False))"

text \<open>
  The matcher of a literal: a search for its first occurrence from an index on.
\<close>

definition literalFrom :: "jsstring \<Rightarrow> nat \<Rightarrow> jsstring \<Rightarrow> nat option" where
  "literalFrom lit i s =
     map_option (\<lambda>k. k + length lit) (find (\<lambda>k. startsWith (drop k s) lit) [i..<Suc (length s)])"

text \<open>
  The formats A, B and T with pattern objects, none flagged. The format G reads \<open>.txt\<close>
  files and has the one head signature \<open>/CHAT/g\<close>; the format X reads \<open>.json\<close> files and
  requires the field \<open>a(\<close>, whose pattern text is malformed.
\<close>

definition featureAS :: formatFeatureS where
  "featureAS = \<lparr>featureS_id = js ''fmtA'', featureS_name = js ''Format A'', featureS_platform = js ''pa'',
                priorityS = 2, extensionsS = [js ''.json''],
                signaturesS = \<lparr>headS = None, requiredFieldsS = Some [js ''a'', js ''b''],
                               fieldPatternsS = None\<rparr>\<rparr>"

definition featureBS :: formatFeatureS where
  "featureBS = \<lparr>featureS_id = js ''fmtB'', featureS_name = js ''Format B'', featureS_platform = js ''pb'',
                priorityS = 1, extensionsS = [js ''.json''],
                signaturesS = \<lparr>headS = None, requiredFieldsS = Some [js ''a'', js ''c''],
                               fieldPatternsS = None\<rparr>\<rparr>"

definition featureTS :: formatFeatureS where
  "featureTS = \<lparr>featureS_id = js ''fmtT'', featureS_name = js ''Format T'', featureS_platform = js ''pt'',
                priorityS = 3, extensionsS = [js ''.txt''],
                signaturesS =
                  \<lparr>headS = Some [\<lparr>address = 1,
                                   matchFrom = (\<lambda>i s. if i = 0 \<and> startsWith s (js ''CHAT'')
                                                       then Some 4 else None),
                                   flagged = False\<rparr>],
                   requiredFieldsS = None, fieldPatternsS = None\<rparr>\<rparr>"

definition featureGS :: formatFeatureS where
  "featureGS = \<lparr>featureS_id = js ''fmtG'', featureS_name = js ''Format G'', featureS_platform = js ''pg'',
                priorityS = 1, extensionsS = [js ''.txt''],
                signaturesS =
                  \<lparr>headS = Some [\<lparr>address = 0, matchFrom = literalFrom (js ''CHAT''), flagged = True\<rparr>],
                   requiredFieldsS = None, fieldPatternsS = None\<rparr>\<rparr>"

definition featureXS :: formatFeatureS where
  "featureXS = \<lparr>featureS_id = js ''fmtX'', featureS_name = js ''Format X'', featureS_platform = js ''px'',
                priorityS = 1, extensionsS = [js ''.json''],
                signaturesS = \<lparr>headS = None, requiredFieldsS = Some [js ''a(''],
                               fieldPatternsS = None\<rparr>\<rparr>"

definition exampleSnifferS :: "((unit, nat, nat, nat) parser, unit) formatSnifferS" where
  "exampleSnifferS =
     \<lparr>formatsS = [\<lparr>featureS = featureBS, parserS = parser moduleB, preprocessorS = None\<rparr>,
                  \<lparr>featureS = featureAS, parserS = parser moduleA, preprocessorS = None\<rparr>,
                  \<lparr>featureS = featureTS, parserS = parser moduleT, preprocessorS = None\<rparr>]\<rparr>"

definition exampleSnifferG :: "((unit, nat, nat, nat) parser, unit) formatSnifferS" where
  "exampleSnifferG =
     \<lparr>formatsS = [\<lparr>featureS = featureGS, parserS = parser moduleT, preprocessorS = None\<rparr>]\<rparr>"

definition exampleSnifferX :: "((unit, nat, nat, nat) parser, unit) formatSnifferS" where
  "exampleSnifferX =
     \<lparr>formatsS = [\<lparr>featureS = featureXS, parserS = parser moduleA, preprocessorS = None\<rparr>]\<rparr>"

section \<open>Lemmas on the sniffer\<close>

subsection \<open>Strings\<close>

lemma startsWith_append: "startsWith (x @ b) x"
  by (induction x) simp_all

lemma includesStr_self_append: "includesStr (x @ b) x"
proof (cases "x @ b")
  case Nil
  then show ?thesis by simp
next
  case (Cons c s)
  have "startsWith (x @ b) x" by (rule startsWith_append)
  then show ?thesis unfolding Cons by simp
qed

lemma includesStr_appendI: "includesStr (a @ x @ b) x"
  by (induction a) (simp_all add: includesStr_self_append)

lemma generateSuggestion_names_extension: "includesStr (generateSuggestion ext [] h) ext"
  by (simp only: generateSuggestion_def list.case includesStr_appendI)

subsection \<open>The checks of one feature\<close>

text \<open>
  The two functions that look for required fields agree: the array \<open>missing\<close> holds the
  fields that are not discoverable, and \<open>every\<close> holds when there is none.
\<close>

lemma checkRequiredFieldsLoop_filter:
  "checkRequiredFieldsLoop L h flds missing =
     missing @ filter (\<lambda>f. \<not> textuallyDiscoverable L h f) flds"
  by (induction flds arbitrary: missing) (simp_all add: textuallyDiscoverable_def Let_def)

lemma matchRequiredFields_all:
  "matchRequiredFields L h flds = list_all (textuallyDiscoverable L h) flds"
  by (induction flds) (simp_all add: matchRequiredFields_def textuallyDiscoverable_def Let_def)

lemma checkRequiredFieldsDetail_agrees:
  "fst (checkRequiredFieldsDetail L h flds) = matchRequiredFields L h flds"
  by (simp add: checkRequiredFieldsDetail_def checkRequiredFieldsLoop_filter matchRequiredFields_all
      Let_def filter_empty_conv list_all_iff)

lemma fieldPatternsLoop_all:
  "fieldPatternsLoop h entries = list_all (\<lambda>entry. snd entry h) entries"
  by (induction h entries rule: fieldPatternsLoop.induct) simp_all


lemma extensionMatch_check:
  "extensionMatch (checkFeatureDetail L feat ext h) = (ext \<in> set (extensions feat))"
  by (simp add: checkFeatureDetail_def Let_def split: option.splits prod.splits)


text \<open>
  The detailed check of \<open>diagnose\<close> decides a full match as \<open>matchFeature\<close> does.
\<close>

lemma fullMatch_check:
  "fullMatch (checkFeatureDetail L feat ext h) = matchFeature L feat ext h"
proof -
  have fst_eq: "\<And>flds a b. checkRequiredFieldsDetail L h flds = (a, b) \<Longrightarrow> a = matchRequiredFields L h flds"
    using checkRequiredFieldsDetail_agrees[of L h] by (metis fst_conv)
  show ?thesis
    by (cases "head (signatures feat)"; cases "requiredFields (signatures feat)";
        cases "fieldPatterns (signatures feat)")
       (auto simp add: checkFeatureDetail_def matchFeature_def Let_def dest!: fst_eq split: prod.splits)
qed

subsection \<open>The loops over the registry\<close>

lemma sniffLoop_find:
  "sniffLoop L ext h ms = map_option feature (find (\<lambda>m. matchFeature L (feature m) ext h) ms)"
  by (induction ms) simp_all

lemma getParserLoop_find:
  "getParserLoop L ext h ms = map_option parser (find (\<lambda>m. matchFeature L (feature m) ext h) ms)"
  by (induction ms) simp_all

lemma diagnoseLoop_result:
  "diagnoseLoop L ext h ms (cs, ps, matched) =
     (cs @ map (\<lambda>m. checkFeatureDetail L (feature m) ext h) ms,
      ps @ filter (\<lambda>c. extensionMatch c \<and> \<not> fullMatch c)
             (map (\<lambda>m. checkFeatureDetail L (feature m) ext h) ms),
      (case matched of Some f \<Rightarrow> Some f | None \<Rightarrow> sniffLoop L ext h ms))"
  by (induction ms arbitrary: cs ps matched) (auto simp: Let_def fullMatch_check split: option.splits)

subsection \<open>The registry is sorted by priority\<close>

text \<open>
  Sorting a sorted array with new modules appended is sorting all of them at once, so
  the registry that \<open>registerAll\<close> builds is the stable sort of the registered modules.
\<close>

lemma sort_key_sorted_prefix:
  "sort_key f (sort_key f xs @ ys) = sort_key f (xs @ ys)"
proof (rule properties_for_sort_key)
  show "mset (sort_key f (xs @ ys)) = mset (sort_key f xs @ ys)" by simp
  show "sorted (map f (sort_key f (xs @ ys)))" by simp
  fix k
  show "filter (\<lambda>x. f k = f x) (sort_key f (xs @ ys)) = filter (\<lambda>x. f k = f x) (sort_key f xs @ ys)"
    using sort_key_stable[of f "f k" "xs @ ys"] sort_key_stable[of f "f k" xs]
    by (simp add: eq_commute[of "f k"])
qed

lemma formats_registerAll:
  "sorted (map (\<lambda>m. priority (feature m)) (formats S)) \<Longrightarrow>
   formats (registerAll ms S) = sort_key (\<lambda>m. priority (feature m)) (formats S @ ms)"
proof (induction ms arbitrary: S)
  case Nil
  then show ?case by (simp add: sort_key_id_if_sorted)
next
  case (Cons m ms)
  have "sorted (map (\<lambda>m. priority (feature m)) (formats (register m S)))"
    by (simp add: register_def)
  from Cons.IH[OF this] show ?case
    by (simp add: register_def sort_key_sorted_prefix)
qed

lemma formats_sniffer: "formats (sniffer fmts) = sort_key (\<lambda>m. priority (feature m)) fmts"
  by (simp add: sniffer_def formats_registerAll createSniffer_def)

lemma set_formats_sniffer: "set (formats (sniffer fmts)) = set fmts"
  by (simp add: formats_sniffer)

subsection \<open>Reading the head window\<close>

lemma readFileHead_readable:
  "fs path = Inr bytes \<Longrightarrow> readFileHead L fs path sz = Inr (toString_utf8 L (take sz bytes))"
  by (simp add: readFileHead_def)

lemma readFileHead_unreadable: "fs path = Inl e \<Longrightarrow> readFileHead L fs path sz = Inl e"
  by (simp add: readFileHead_def)

lemma sniff_readable:
  "fs path = Inr bytes \<Longrightarrow>
   sniff L fs S path =
     Inr (map_option feature
            (find (\<lambda>m. matchFeature L (feature m) (getExtension L path)
                          (toString_utf8 L (take HEAD_SIZE bytes))) (formats S)))"
  by (simp add: sniff_def readFileHead_readable sniffLoop_find)

lemma getParser_readable:
  "fs path = Inr bytes \<Longrightarrow>
   getParser L fs S path =
     Inr (map_option parser
            (find (\<lambda>m. matchFeature L (feature m) (getExtension L path)
                          (toString_utf8 L (take HEAD_SIZE bytes))) (formats S)))"
  by (simp add: getParser_def readFileHead_readable getParserLoop_find)

lemma diagnose_readable:
  "fs path = Inr bytes \<Longrightarrow>
   diagnose L fs S path =
     (let ext = getExtension L path; h = toString_utf8 L (take HEAD_SIZE bytes);
          cs = map (\<lambda>m. checkFeatureDetail L (feature m) ext h) (formats S);
          ps = filter (\<lambda>c. extensionMatch c \<and> \<not> fullMatch c) cs;
          matched = sniffLoop L ext h (formats S)
      in Inr \<lparr>recognized = (matched \<noteq> None), matchedFormat = matched, checks = cs,
              partialMatches = ps, suggestion = generateSuggestion ext ps h\<rparr>)"
  by (simp add: diagnose_def readFileHead_readable diagnoseLoop_result Let_def)

section \<open>Lemmas on the sniffer with pattern objects\<close>

subsection \<open>Patterns without flags write nothing\<close>

lemma test_unflagged: "\<not> flagged r \<Longrightarrow> test r s \<sigma> = (purePattern r s, \<sigma>)"
  by (simp add: test_def purePattern_def)

lemma matchHeadSignaturesS_unflagged:
  "list_all (\<lambda>r. \<not> flagged r) hs \<Longrightarrow>
   matchHeadSignaturesS h hs \<sigma> = (list_ex (\<lambda>r. purePattern r h) hs, \<sigma>)"
  by (induction hs) (simp_all add: test_unflagged)

lemma fieldPatternsLoopS_unflagged:
  "list_all (\<lambda>entry. \<not> flagged (snd entry)) entries \<Longrightarrow>
   fieldPatternsLoopS h entries \<sigma> = (list_all (\<lambda>entry. purePattern (snd entry) h) entries, \<sigma>)"
  by (induction h entries \<sigma> rule: fieldPatternsLoopS.induct) (simp_all add: test_unflagged)

lemma matchFeatureS_unflagged:
  assumes "unflaggedFeature feat"
  shows "snd (matchFeatureS ctor feat ext h \<sigma>) = \<sigma>"
  using assms
  by (cases "headS (signaturesS feat)"; cases "fieldPatternsS (signaturesS feat)")
     (auto simp: matchFeatureS_def unflaggedFeature_def matchHeadSignaturesS_unflagged
       fieldPatternsLoopS_unflagged split: prod.splits sum.splits option.splits)

lemma checkFeatureDetailS_unflagged:
  assumes "unflaggedFeature feat"
  shows "snd (checkFeatureDetailS ctor feat ext h \<sigma>) = \<sigma>"
  using assms
  by (cases "headS (signaturesS feat)"; cases "fieldPatternsS (signaturesS feat)")
     (auto simp: checkFeatureDetailS_def unflaggedFeature_def matchHeadSignaturesS_unflagged
       fieldPatternsLoopS_unflagged Let_def split: prod.splits sum.splits option.splits)

lemma diagnoseLoopS_unflagged:
  "\<forall>m \<in> set ms. unflaggedFeature (featureS m) \<Longrightarrow>
   snd (diagnoseLoopS ctor ext h ms st \<sigma>) = \<sigma>"
proof (induction ms arbitrary: st)
  case Nil
  then show ?case by simp
next
  case (Cons m ms)
  obtain cs ps matched where st: "st = (cs, ps, matched)" by (rule prod_cases3)
  from Cons.prems have "snd (checkFeatureDetailS ctor (featureS m) ext h \<sigma>) = \<sigma>"
    by (simp add: checkFeatureDetailS_unflagged)
  then obtain r where r: "checkFeatureDetailS ctor (featureS m) ext h \<sigma> = (r, \<sigma>)"
    by (cases "checkFeatureDetailS ctor (featureS m) ext h \<sigma>") simp
  from Cons have "\<And>st'. snd (diagnoseLoopS ctor ext h ms st' \<sigma>) = \<sigma>" by simp
  then show ?case by (cases r) (simp_all add: st r)
qed

subsection \<open>Well-formed field names raise nothing\<close>

lemma matchRequiredFieldsS_wellFormed:
  "list_all (\<lambda>field. \<not> isl (ctor (fieldPatternSource field))) flds \<Longrightarrow>
   matchRequiredFieldsS ctor h flds = Inr (list_all (textuallyDiscoverableS ctor h) flds)"
  by (induction flds) (auto simp: textuallyDiscoverableS_def split: sum.splits)

lemma checkRequiredFieldsLoopS_wellFormed:
  "list_all (\<lambda>field. \<not> isl (ctor (fieldPatternSource field))) flds \<Longrightarrow>
   checkRequiredFieldsLoopS ctor h flds missing =
     Inr (missing @ filter (\<lambda>f. \<not> textuallyDiscoverableS ctor h f) flds)"
  by (induction flds arbitrary: missing) (auto simp: textuallyDiscoverableS_def Let_def split: sum.splits)




lemma checkFeatureDetailS_returns:
  assumes "wellFormedFields ctor feat"
  shows "\<exists>c \<sigma>'. checkFeatureDetailS ctor feat ext h \<sigma> = (Inr c, \<sigma>')"
  using assms
  by (cases "requiredFieldsS (signaturesS feat)")
     (auto simp: checkFeatureDetailS_def wellFormedFields_def checkRequiredFieldsDetailS_def
       checkRequiredFieldsLoopS_wellFormed Let_def split: prod.splits option.splits)

lemma diagnoseLoopS_returns:
  "\<forall>m \<in> set ms. wellFormedFields ctor (featureS m) \<Longrightarrow>
   \<exists>st' \<sigma>'. diagnoseLoopS ctor ext h ms st \<sigma> = (Inr st', \<sigma>')"
proof (induction ms arbitrary: st \<sigma>)
  case Nil
  then show ?case by (cases st) auto
next
  case (Cons m ms)
  obtain cs ps matched where st: "st = (cs, ps, matched)" by (rule prod_cases3)
  from Cons.prems obtain c \<sigma>1 where c: "checkFeatureDetailS ctor (featureS m) ext h \<sigma> = (Inr c, \<sigma>1)"
    using checkFeatureDetailS_returns[of ctor "featureS m" ext h \<sigma>] by auto
  from Cons have "\<And>st'. \<exists>st'' \<sigma>'. diagnoseLoopS ctor ext h ms st' \<sigma>1 = (Inr st'', \<sigma>')" by simp
  then show ?case by (simp add: st c)
qed

subsection \<open>The result of the scans\<close>

lemma matchFeatureS_passes:
  assumes "unflaggedFeature feat" and "wellFormedFields ctor feat"
  shows "matchFeatureS ctor feat ext h \<sigma> = (Inr (passesAllChecksS ctor feat ext h), \<sigma>)"
  using assms
  by (cases "headS (signaturesS feat)"; cases "requiredFieldsS (signaturesS feat)";
      cases "fieldPatternsS (signaturesS feat)")
     (auto simp: matchFeatureS_def unflaggedFeature_def wellFormedFields_def passesAllChecksS_def
       matchHeadSignaturesS_unflagged fieldPatternsLoopS_unflagged matchRequiredFieldsS_wellFormed
       split: list.splits)


lemma getParserLoopS_passes:
  "\<forall>m \<in> set ms. unflaggedFeature (featureS m) \<and> wellFormedFields ctor (featureS m) \<Longrightarrow>
   getParserLoopS ctor ext h ms \<sigma> =
     (Inr (map_option parserS (find (\<lambda>m. passesAllChecksS ctor (featureS m) ext h) ms)), \<sigma>)"
  by (induction ms) (simp_all add: matchFeatureS_passes)

lemma getParserLoopS_none:
  "\<forall>m \<in> set ms. \<forall>\<sigma>'. fst (matchFeatureS ctor (featureS m) ext h \<sigma>') = Inr False \<Longrightarrow>
   \<exists>\<sigma>'. getParserLoopS ctor ext h ms \<sigma> = (Inr None, \<sigma>')"
proof (induction ms arbitrary: \<sigma>)
  case Nil
  then show ?case by simp
next
  case (Cons m ms)
  then have "fst (matchFeatureS ctor (featureS m) ext h \<sigma>) = Inr False" by simp
  then obtain \<sigma>1 where "matchFeatureS ctor (featureS m) ext h \<sigma> = (Inr False, \<sigma>1)"
    by (cases "matchFeatureS ctor (featureS m) ext h \<sigma>") simp
  moreover from Cons obtain \<sigma>2 where "getParserLoopS ctor ext h ms \<sigma>1 = (Inr None, \<sigma>2)"
    by fastforce
  ultimately show ?case by simp
qed

subsection \<open>Reading the head window\<close>

lemma sniffS_unreadable:
  "fs path = Inl e \<Longrightarrow> sniffS ctor L fs S path \<sigma> = (Inl e, \<sigma>)"
  by (simp add: sniffS_def readFileHead_unreadable)

lemma getParserS_unreadable:
  "fs path = Inl e \<Longrightarrow> getParserS ctor L fs S path \<sigma> = (Inl e, \<sigma>)"
  by (simp add: getParserS_def readFileHead_unreadable)

lemma sniffS_readable:
  "fs path = Inr bytes \<Longrightarrow>
   sniffS ctor L fs S path \<sigma> =
     sniffLoopS ctor (getExtension L path) (toString_utf8 L (take HEAD_SIZE bytes)) (formatsS S) \<sigma>"
  by (simp add: sniffS_def readFileHead_readable)

lemma getParserS_readable:
  "fs path = Inr bytes \<Longrightarrow>
   getParserS ctor L fs S path \<sigma> =
     getParserLoopS ctor (getExtension L path) (toString_utf8 L (take HEAD_SIZE bytes)) (formatsS S) \<sigma>"
  by (simp add: getParserS_def readFileHead_readable)

lemma diagnoseS_readable:
  "fs path = Inr bytes \<Longrightarrow>
   diagnoseS ctor L fs S path \<sigma> =
     (case diagnoseLoopS ctor (getExtension L path) (toString_utf8 L (take HEAD_SIZE bytes))
             (formatsS S) ([], [], None) \<sigma> of
        (Inl e, \<sigma>') \<Rightarrow> (Inl e, \<sigma>')
      | (Inr (cs, ps, matched), \<sigma>') \<Rightarrow>
          (Inr \<lparr>recognizedS = (matched \<noteq> None), matchedFormatS = matched, checksS = cs,
                partialMatchesS = ps,
                suggestionS = generateSuggestion (getExtension L path) ps
                                (toString_utf8 L (take HEAD_SIZE bytes))\<rparr>, \<sigma>'))"
  by (simp add: diagnoseS_def readFileHead_readable Let_def)

lemma diagnoseS_unflagged:
  assumes "fs path = Inr bytes" and "\<forall>m \<in> set (formatsS S). unflaggedFeature (featureS m)"
  shows "snd (diagnoseS ctor L fs S path \<sigma>) = \<sigma>"
  using diagnoseLoopS_unflagged[OF assms(2), of ctor "getExtension L path"
      "toString_utf8 L (take HEAD_SIZE bytes)" "([], [], None)" \<sigma>]
  by (auto simp add: diagnoseS_readable[of fs path bytes, OF assms(1)] split: prod.splits sum.splits)

lemma diagnoseS_returns:
  assumes "fs path = Inr bytes" and "\<forall>m \<in> set (formatsS S). wellFormedFields ctor (featureS m)"
  shows "\<exists>d. fst (diagnoseS ctor L fs S path \<sigma>) = Inr d"
  using diagnoseLoopS_returns[OF assms(2), of "getExtension L path"
      "toString_utf8 L (take HEAD_SIZE bytes)" "([], [], None)" \<sigma>]
  by (auto simp add: diagnoseS_readable[of fs path bytes, OF assms(1)])

subsection \<open>The first model is the sniffer without flags and without malformed names\<close>

text \<open>
  When no registered pattern carries a flag and the constructor returns the pattern of
  the runtime for every source, the sniffer with pattern objects computes what the
  first model computes on the registry of predicates, and it writes nothing.
\<close>

lemma matchHeadSignaturesS_pure:
  "list_all (\<lambda>r. \<not> flagged r) hs \<Longrightarrow>
   matchHeadSignaturesS h hs \<sigma> = (matchHeadSignatures h (map purePattern hs), \<sigma>)"
  by (simp add: matchHeadSignaturesS_unflagged matchHeadSignatures_def list_ex_iff)

lemma fieldPatternsLoopS_pure:
  "list_all (\<lambda>entry. \<not> flagged (snd entry)) entries \<Longrightarrow>
   fieldPatternsLoopS h entries \<sigma> =
     (fieldPatternsLoop h (map (\<lambda>entry. (fst entry, purePattern (snd entry))) entries), \<sigma>)"
  by (simp add: fieldPatternsLoopS_unflagged fieldPatternsLoop_all list_all_iff)

lemma matchRequiredFieldsS_pure:
  "\<forall>src. ctor src = Inr (RegExp_new L src) \<Longrightarrow>
   matchRequiredFieldsS ctor h flds = Inr (matchRequiredFields L h flds)"
  by (induction flds) (simp_all add: matchRequiredFields_def Let_def)

lemma checkRequiredFieldsLoopS_pure:
  "\<forall>src. ctor src = Inr (RegExp_new L src) \<Longrightarrow>
   checkRequiredFieldsLoopS ctor h flds missing = Inr (checkRequiredFieldsLoop L h flds missing)"
  by (induction flds arbitrary: missing) (simp_all add: Let_def)

lemma matchFeatureS_pure:
  assumes "unflaggedFeature feat" and "\<forall>src. ctor src = Inr (RegExp_new L src)"
  shows "matchFeatureS ctor feat ext h \<sigma> = (Inr (matchFeature L (pureFeature feat) ext h), \<sigma>)"
  using assms(1)
  by (cases "headS (signaturesS feat)"; cases "requiredFieldsS (signaturesS feat)";
      cases "fieldPatternsS (signaturesS feat)")
     (simp_all add: matchFeatureS_def matchFeature_def pureFeature_def unflaggedFeature_def
       matchHeadSignaturesS_pure fieldPatternsLoopS_pure matchRequiredFieldsS_pure[OF assms(2)])

lemma checkFeatureDetailS_pure:
  assumes "unflaggedFeature feat" and "\<forall>src. ctor src = Inr (RegExp_new L src)"
  shows "checkFeatureDetailS ctor feat ext h \<sigma> = (Inr (checkFeatureDetail L (pureFeature feat) ext h), \<sigma>)"
  using assms(1)
  by (cases "headS (signaturesS feat)"; cases "requiredFieldsS (signaturesS feat)";
      cases "fieldPatternsS (signaturesS feat)")
     (simp_all add: checkFeatureDetailS_def checkFeatureDetail_def pureFeature_def unflaggedFeature_def
       matchHeadSignaturesS_pure fieldPatternsLoopS_pure checkRequiredFieldsDetailS_def
       checkRequiredFieldsDetail_def checkRequiredFieldsLoopS_pure[OF assms(2)] Let_def)

lemma sniffLoopS_pure:
  assumes "\<forall>src. ctor src = Inr (RegExp_new L src)"
  shows "\<forall>m \<in> set ms. unflaggedFeature (featureS m) \<Longrightarrow>
   sniffLoopS ctor ext h ms \<sigma> =
     (Inr (map_option featureS (find (\<lambda>m. matchFeature L (pureFeature (featureS m)) ext h) ms)), \<sigma>)"
  by (induction ms) (simp_all add: matchFeatureS_pure[OF _ assms])

lemma sniffS_is_sniff:
  assumes "\<forall>m \<in> set (formatsS S). unflaggedFeature (featureS m)"
    and "\<forall>src. ctor src = Inr (RegExp_new L src)"
  shows "map_sum id (map_option pureFeature) (fst (sniffS ctor L fs S path \<sigma>)) =
           sniff L fs (pureSniffer S) path \<and>
         snd (sniffS ctor L fs S path \<sigma>) = \<sigma>"
proof (cases "fs path")
  case (Inl e)
  then show ?thesis by (simp add: sniffS_unreadable sniff_def readFileHead_unreadable)
next
  case (Inr bytes)
  have "map_option pureFeature (map_option featureS (find P ms)) =
        map_option feature
          (find (\<lambda>m. P' (feature m))
             (map (\<lambda>m. \<lparr>feature = pureFeature (featureS m), parser = parserS m,
                          preprocessor = preprocessorS m\<rparr>) ms))"
    if "\<And>m. P m = P' (pureFeature (featureS m))" for P P' and ms :: "('a, 'b) formatModuleS list"
    using that by (induction ms) simp_all
  then show ?thesis
    by (simp add: sniffS_readable[of fs path bytes, OF Inr] sniff_readable[of fs path bytes, OF Inr]
        sniffLoopS_pure[OF assms(2) assms(1)] pureSniffer_def)
qed

lemma getParserLoopS_pure:
  assumes "\<forall>src. ctor src = Inr (RegExp_new L src)"
  shows "\<forall>m \<in> set ms. unflaggedFeature (featureS m) \<Longrightarrow>
   getParserLoopS ctor ext h ms \<sigma> =
     (Inr (getParserLoop L ext h
             (map (\<lambda>m. \<lparr>feature = pureFeature (featureS m), parser = parserS m,
                          preprocessor = preprocessorS m\<rparr>) ms)), \<sigma>)"
  by (induction ms) (simp_all add: matchFeatureS_pure[OF _ assms])

lemma getParserS_is_getParser:
  assumes "\<forall>m \<in> set (formatsS S). unflaggedFeature (featureS m)"
    and "\<forall>src. ctor src = Inr (RegExp_new L src)"
  shows "getParserS ctor L fs S path \<sigma> = (getParser L fs (pureSniffer S) path, \<sigma>)"
  by (cases "fs path")
     (simp_all add: getParserS_def getParser_def readFileHead_def getParserLoopS_pure[OF assms(2) assms(1)]
       pureSniffer_def)

lemma diagnoseLoopS_pure:
  assumes "\<forall>src. ctor src = Inr (RegExp_new L src)"
  shows "\<forall>m \<in> set ms. unflaggedFeature (featureS m) \<Longrightarrow>
   diagnoseLoopS ctor ext h ms (cs, ps, matched) \<sigma> =
     (Inr (cs @ map (\<lambda>m. checkFeatureDetail L (pureFeature (featureS m)) ext h) ms,
           ps @ filter (\<lambda>c. extensionMatch c \<and> \<not> fullMatch c)
                  (map (\<lambda>m. checkFeatureDetail L (pureFeature (featureS m)) ext h) ms),
           (case matched of
              Some f \<Rightarrow> Some f
            | None \<Rightarrow> map_option featureS
                        (find (\<lambda>m. matchFeature L (pureFeature (featureS m)) ext h) ms))), \<sigma>)"
proof (induction ms arbitrary: cs ps matched)
  case Nil
  then show ?case by (simp split: option.splits)
next
  case (Cons m ms)
  then have u: "unflaggedFeature (featureS m)" and rest: "\<forall>m \<in> set ms. unflaggedFeature (featureS m)"
    by simp_all
  show ?case
    by (auto simp add: checkFeatureDetailS_pure[OF u assms] Cons.IH[OF rest] fullMatch_check
        split: option.splits)
qed

lemma find_pureModule:
  "map_option pureFeature (map_option featureS (find (\<lambda>m. P (pureFeature (featureS m))) ms)) =
   map_option feature
     (find (\<lambda>m. P (feature m))
        (map (\<lambda>m. \<lparr>feature = pureFeature (featureS m), parser = parserS m,
                     preprocessor = preprocessorS m\<rparr>) ms))"
  by (induction ms) simp_all

lemma diagnoseS_is_diagnose:
  assumes "\<forall>m \<in> set (formatsS S). unflaggedFeature (featureS m)"
    and "\<forall>src. ctor src = Inr (RegExp_new L src)"
  shows "map_sum id pureDiagnosis (fst (diagnoseS ctor L fs S path \<sigma>)) = diagnose L fs (pureSniffer S) path \<and>
         snd (diagnoseS ctor L fs S path \<sigma>) = \<sigma>"
proof (cases "fs path")
  case (Inl e)
  then show ?thesis by (simp add: diagnoseS_def diagnose_def readFileHead_unreadable)
next
  case (Inr bytes)
  let ?ext = "getExtension L path"
  let ?h = "toString_utf8 L (take HEAD_SIZE bytes)"
  let ?found = "find (\<lambda>m. matchFeature L (pureFeature (featureS m)) ?ext ?h) (formatsS S)"
  let ?found' = "find (\<lambda>m. matchFeature L (feature m) ?ext ?h)
                   (map (\<lambda>m. \<lparr>feature = pureFeature (featureS m), parser = parserS m,
                                preprocessor = preprocessorS m\<rparr>) (formatsS S))"
  have fp: "map_option pureFeature (map_option featureS ?found) = map_option feature ?found'"
    using find_pureModule[of "\<lambda>f. matchFeature L f ?ext ?h" "formatsS S"] by simp
  then have ex: "(\<exists>z. ?found = Some z) = (\<exists>z. ?found' = Some z)"
    by (cases ?found; cases ?found') simp_all
  show ?thesis
    by (simp add: diagnoseS_readable[of fs path bytes, OF Inr] diagnose_readable[of fs path bytes, OF Inr]
        diagnoseLoopS_pure[OF assms(2) assms(1)] pureSniffer_def pureDiagnosis_def Let_def
        sniffLoop_find comp_def fp ex)
qed

section \<open>Lemmas on parsing\<close>

lemma parseFileSyncLoop_result:
  "parseFileSyncLoop evs (m, mems, msgs) =
     (case errorsOf evs of
        e # es \<Rightarrow> Inl e
      | [] \<Rightarrow> Inr (if metasOf evs = [] then m else Some (last (metasOf evs)),
                   mems @ concat (membersBatches evs), msgs @ concat (messagesBatches evs)))"
  by (induction evs "(m, mems, msgs)" arbitrary: m mems msgs rule: parseFileSyncLoop.induct)
     (auto split: list.splits)

lemma parseFileInfoLoop_result:
  "parseFileInfoLoop evs (nm, pf, msgCount, memCount) =
     (case errorsOf evs of
        e # es \<Rightarrow> Inl e
      | [] \<Rightarrow> Inr (if metasOf evs = [] then nm else meta_name (last (metasOf evs)),
                   if metasOf evs = [] then pf else meta_platform (last (metasOf evs)),
                   msgCount + sum_list (map length (messagesBatches evs)),
                   memCount + sum_list (map length (membersBatches evs))))"
  by (induction evs "(nm, pf, msgCount, memCount)" arbitrary: nm pf msgCount memCount
        rule: parseFileInfoLoop.induct)
     (auto split: list.splits)

lemma parseFile_raised_yields_nothing:
  "raised (parseFile L fs fmts options) = Some e \<Longrightarrow> yielded (parseFile L fs fmts options) = []"
  by (simp add: parseFile_def split: sum.splits option.splits)

lemma sniff_Some_parseFile:
  assumes "sniff L fs (sniffer fmts) path = Inr (Some feat)"
  shows "\<exists>bytes. fs path = Inr bytes \<and>
           raised (parseFile L fs fmts \<lparr>filePath = path, batchSize = b\<rparr>) = None"
proof (cases "fs path")
  case (Inl e)
  with assms show ?thesis by (simp add: sniff_def readFileHead_def)
next
  case (Inr bytes)
  from assms obtain m where
    "find (\<lambda>m. matchFeature L (feature m) (getExtension L path)
                 (toString_utf8 L (take HEAD_SIZE bytes))) (formats (sniffer fmts)) = Some m"
    by (auto simp: sniff_readable[of fs path bytes, OF Inr])
  then have "getParser L fs (sniffer fmts) path = Inr (Some (parser m))"
    by (simp add: getParser_readable[of fs path bytes, OF Inr])
  then show ?thesis using Inr by (simp add: parseFile_def)
qed

section \<open>The example, evaluated\<close>

lemma exampleFiles_simps:
  "exampleFiles (js ''ab.json'') = Inr fileAB"
  "exampleFiles (js ''ac.json'') = Inr fileAC"
  "exampleFiles (js ''a.JSON'') = Inr fileA"
  "exampleFiles (js ''log.txt'') = Inr fileLog"
  "exampleFiles (js ''table.csv'') = Inr fileCsv"
  "exampleFiles (js ''gone.json'') = Inl (SystemError (js ''ENOENT''))"
  "exampleFiles (js ''big1.json'') = Inr fileBig1"
  "exampleFiles (js ''big2.JSON'') = Inr fileBig2"
  by (simp_all add: exampleFiles_def js_def)

lemma example_extensions:
  "getExtension exampleRuntime (js ''ab.json'') = js ''.json''"
  "getExtension exampleRuntime (js ''ac.json'') = js ''.json''"
  "getExtension exampleRuntime (js ''a.JSON'') = js ''.json''"
  "getExtension exampleRuntime (js ''log.txt'') = js ''.txt''"
  "getExtension exampleRuntime (js ''table.csv'') = js ''.csv''"
  "getExtension exampleRuntime (js ''big1.json'') = js ''.json''"
  "getExtension exampleRuntime (js ''big2.JSON'') = js ''.json''"
  by code_simp+

lemma example_heads:
  "toString_utf8 exampleRuntime (take HEAD_SIZE fileAB) = headAB"
  "toString_utf8 exampleRuntime (take HEAD_SIZE fileAC) = headAC"
  "toString_utf8 exampleRuntime (take HEAD_SIZE fileA) = headA"
  "toString_utf8 exampleRuntime (take HEAD_SIZE fileLog) = headLog"
  "toString_utf8 exampleRuntime (take HEAD_SIZE fileCsv) = headCsv"
  by (simp_all add: HEAD_SIZE_def exampleRuntime_def fileAB_def fileAC_def fileA_def fileLog_def
      fileCsv_def headAB_def headAC_def headA_def headLog_def headCsv_def)

lemma example_sorted:
  "formats (sniffer exampleFormats) = [moduleB, moduleA, moduleT]"
  by (simp add: formats_sniffer exampleFormats_def moduleA_def moduleB_def moduleT_def
      featureA_def featureB_def featureT_def)

lemma example_features:
  "feature moduleA = featureA" "feature moduleB = featureB" "feature moduleT = featureT"
  by (simp_all add: moduleA_def moduleB_def moduleT_def)

lemma example_fields:
  "feature_id featureA = js ''fmtA''" "feature_id featureB = js ''fmtB''"
  "feature_name featureB = js ''Format B''" "feature_platform featureB = js ''pb''"
  "requiredFields (signatures featureA) = Some [js ''a'', js ''b'']"
  by (simp_all add: featureA_def featureB_def)

lemma example_ext_membership:
  "js ''.json'' \<in> set (extensions featureA)" "js ''.json'' \<in> set (extensions featureB)"
  "js ''.json'' \<notin> set (extensions featureT)"
  "js ''.csv'' \<notin> set (extensions featureA)" "js ''.csv'' \<notin> set (extensions featureB)"
  "js ''.csv'' \<notin> set (extensions featureT)"
  by (simp_all add: featureA_def featureB_def featureT_def js_def)

lemma example_matches:
  "\<not> matchFeature exampleRuntime featureB (js ''.json'') headAB"
  "matchFeature exampleRuntime featureA (js ''.json'') headAB"
  "matchFeature exampleRuntime featureB (js ''.json'') headAC"
  "\<not> matchFeature exampleRuntime featureB (js ''.json'') headA"
  "\<not> matchFeature exampleRuntime featureA (js ''.json'') headA"
  "\<not> matchFeature exampleRuntime featureT (js ''.json'') headA"
  "\<not> matchFeature exampleRuntime featureB (js ''.txt'') headLog"
  "\<not> matchFeature exampleRuntime featureA (js ''.txt'') headLog"
  "matchFeature exampleRuntime featureT (js ''.txt'') headLog"
  "\<not> matchFeature exampleRuntime featureB (js ''.csv'') headCsv"
  "\<not> matchFeature exampleRuntime featureA (js ''.csv'') headCsv"
  "\<not> matchFeature exampleRuntime featureT (js ''.csv'') headCsv"
  by code_simp+


lemma example_sniff:
  "sniff exampleRuntime exampleFiles (sniffer exampleFormats) (js ''ab.json'') = Inr (Some featureA)"
  "sniff exampleRuntime exampleFiles (sniffer exampleFormats) (js ''ac.json'') = Inr (Some featureB)"
  "sniff exampleRuntime exampleFiles (sniffer exampleFormats) (js ''a.JSON'') = Inr None"
  "sniff exampleRuntime exampleFiles (sniffer exampleFormats) (js ''log.txt'') = Inr (Some featureT)"
  "sniff exampleRuntime exampleFiles (sniffer exampleFormats) (js ''table.csv'') = Inr None"
  by (simp_all add: sniff_def readFileHead_def exampleFiles_simps example_extensions example_heads
      example_sorted example_features example_matches)

lemma example_getParser:
  "getParser exampleRuntime exampleFiles (sniffer exampleFormats) (js ''ab.json'') = Inr (Some (parser moduleA))"
  "getParser exampleRuntime exampleFiles (sniffer exampleFormats) (js ''ac.json'') = Inr (Some (parser moduleB))"
  "getParser exampleRuntime exampleFiles (sniffer exampleFormats) (js ''log.txt'') = Inr (Some (parser moduleT))"
  "getParser exampleRuntime exampleFiles (sniffer exampleFormats) (js ''table.csv'') = Inr None"
  by (simp_all add: getParser_def readFileHead_def exampleFiles_simps example_extensions example_heads
      example_sorted example_features example_matches)

lemma example_parseFile:
  "parseFile exampleRuntime exampleFiles exampleFormats \<lparr>filePath = js ''ab.json'', batchSize = None\<rparr> =
     \<lparr>yielded = [Meta \<lparr>meta_name = js ''first'', meta_platform = js ''pa''\<rparr>,
                 Members [1, 2], Progress 50, Messages [10, 11],
                 Meta \<lparr>meta_name = js ''second'', meta_platform = js ''pa''\<rparr>,
                 Messages [12], Members [3]], raised = None\<rparr>"
  "parseFile exampleRuntime exampleFiles exampleFormats \<lparr>filePath = js ''ac.json'', batchSize = None\<rparr> =
     \<lparr>yielded = [Members [1], Messages [10, 11], Progress 100, Messages [12]], raised = None\<rparr>"
  "parseFile exampleRuntime exampleFiles exampleFormats \<lparr>filePath = js ''log.txt'', batchSize = None\<rparr> =
     \<lparr>yielded = [Members [1], ErrorEvent (Error (js ''bad line'')), Messages [10]], raised = None\<rparr>"
  by (simp_all add: parseFile_def example_getParser moduleA_def moduleB_def moduleT_def)

lemma exampleS_formats:
  "formatsS exampleSnifferS =
     [\<lparr>featureS = featureBS, parserS = parser moduleB, preprocessorS = None\<rparr>,
      \<lparr>featureS = featureAS, parserS = parser moduleA, preprocessorS = None\<rparr>,
      \<lparr>featureS = featureTS, parserS = parser moduleT, preprocessorS = None\<rparr>]"
  "formatsS exampleSnifferG = [\<lparr>featureS = featureGS, parserS = parser moduleT, preprocessorS = None\<rparr>]"
  "formatsS exampleSnifferX = [\<lparr>featureS = featureXS, parserS = parser moduleA, preprocessorS = None\<rparr>]"
  by (simp_all add: exampleSnifferS_def exampleSnifferG_def exampleSnifferX_def)

lemma exampleS_wellFormed:
  "wellFormedFields exampleConstructor featureAS"
  "wellFormedFields exampleConstructor featureBS"
  "wellFormedFields exampleConstructor featureTS"
  by code_simp+

lemma exampleS_unflagged:
  "unflaggedFeature featureAS" "unflaggedFeature featureBS" "unflaggedFeature featureTS"
  by code_simp+

lemma exampleS_passes:
  "\<not> passesAllChecksS exampleConstructor featureBS (js ''.json'') headAB"
  "passesAllChecksS exampleConstructor featureAS (js ''.json'') headAB"
  "\<not> passesAllChecksS exampleConstructor featureBS (js ''.json'') headA"
  "\<not> passesAllChecksS exampleConstructor featureAS (js ''.json'') headA"
  "\<not> passesAllChecksS exampleConstructor featureTS (js ''.json'') headA"
  "\<not> passesAllChecksS exampleConstructor featureBS (js ''.csv'') headCsv"
  "\<not> passesAllChecksS exampleConstructor featureAS (js ''.csv'') headCsv"
  "\<not> passesAllChecksS exampleConstructor featureTS (js ''.csv'') headCsv"
  by code_simp+


lemma exampleS_literal:
  "length headLog = 8"
  "literalFrom (js ''CHAT'') 0 headLog = Some 4"
  "literalFrom (js ''CHAT'') 4 headLog = None"
  by code_simp+

section \<open>The claims\<close>

subsection \<open>C1: sniff returns the first full match in priority order\<close>



subsection \<open>C2: sniff and getParser can throw\<close>




subsection \<open>C3: diagnose agrees with sniff\<close>



subsection \<open>C4: a file with an unsupported extension\<close>

text \<open>
  Claim C4. For every readable file whose extension, as \<open>getExtension\<close> reads it (in lower
  case), is an extension of no registered format, \<open>detectFormat\<close> returns null, and
  \<open>diagnoseFormat\<close> returns a diagnosis with no partial match and with a suggestion that
  contains this extension.
\<close>

theorem unsupported_extension:
  assumes "fs path = Inr bytes"
    and "\<forall>m \<in> set fmts. getExtension L path \<notin> set (extensions (feature m))"
  shows "detectFormat L fs fmts path = Inr None \<and>
         (\<exists>d. diagnoseFormat L fs fmts path = Inr d \<and> partialMatches d = [] \<and>
              includesStr (suggestion d) (getExtension L path))"
proof -
  let ?ext = "getExtension L path"
  let ?h = "toString_utf8 L (take HEAD_SIZE bytes)"
  let ?S = "sniffer fmts"
  have nomatch: "\<forall>m \<in> set (formats ?S). \<not> matchFeature L (feature m) ?ext ?h"
    using assms(2) by (simp add: set_formats_sniffer matchFeature_def)
  then have "find (\<lambda>m. matchFeature L (feature m) ?ext ?h) (formats ?S) = None"
    by (simp add: find_None_iff)
  then have d: "detectFormat L fs fmts path = Inr None"
    by (simp add: detectFormat_def sniff_readable[of fs path bytes, OF assms(1)])
  have "filter (\<lambda>c. extensionMatch c \<and> \<not> fullMatch c)
          (map (\<lambda>m. checkFeatureDetail L (feature m) ?ext ?h) (formats ?S)) = []"
    using assms(2) by (simp add: filter_empty_conv extensionMatch_check set_formats_sniffer)
  then have "\<exists>d. diagnoseFormat L fs fmts path = Inr d \<and> partialMatches d = [] \<and>
              includesStr (suggestion d) ?ext"
    by (simp add: diagnoseFormat_def diagnose_readable[of fs path bytes, OF assms(1)] Let_def
        generateSuggestion_names_extension)
  with d show ?thesis by simp
qed

text \<open>
  On \<open>table.csv\<close> the suggestion names \<open>.csv\<close>.
\<close>

theorem unsupported_extension_witness:
  "exampleFiles (js ''table.csv'') = Inr fileCsv \<and>
   detectFormat exampleRuntime exampleFiles exampleFormats (js ''table.csv'') = Inr None \<and>
   (\<exists>d. diagnoseFormat exampleRuntime exampleFiles exampleFormats (js ''table.csv'') = Inr d \<and>
        partialMatches d = [] \<and> includesStr (suggestion d) (js ''.csv''))"
proof -
  have h: "exampleFiles (js ''table.csv'') = Inr fileCsv" by (rule exampleFiles_simps)
  have n: "\<forall>m \<in> set exampleFormats.
             getExtension exampleRuntime (js ''table.csv'') \<notin> set (extensions (feature m))"
    by (simp add: exampleFormats_def example_features example_extensions example_ext_membership)
  from unsupported_extension[where fs = exampleFiles and path = "js ''table.csv''" and bytes = fileCsv
      and L = exampleRuntime and fmts = exampleFormats, OF h n] h
  show ?thesis by (simp add: example_extensions)
qed

subsection \<open>C5: one required field of two is missing\<close>




subsection \<open>C6: parseFileSync collects the events\<close>

text \<open>
  Claim C6. For every path, with the events that \<open>parseFile\<close> yields for it:
  \<open>parseFileSync\<close> fails when no meta event is among them; when there is a meta event and
  no error event, it returns the last meta with all members batches and all messages
  batches concatenated in the order of emission; and when there is an error event it
  fails with the data of the first one.
\<close>

theorem parseFileSync_collects:
  assumes "g = parseFile L fs fmts \<lparr>filePath = path, batchSize = None\<rparr>"
  shows "(metasOf (yielded g) = [] \<longrightarrow> (\<exists>e. parseFileSync L fs fmts path = Inl e)) \<and>
         (metasOf (yielded g) \<noteq> [] \<and> errorsOf (yielded g) = [] \<longrightarrow>
            parseFileSync L fs fmts path =
              Inr \<lparr>meta = last (metasOf (yielded g)),
                   members = concat (membersBatches (yielded g)),
                   messages = concat (messagesBatches (yielded g))\<rparr>) \<and>
         (\<forall>e es. errorsOf (yielded g) = e # es \<longrightarrow> parseFileSync L fs fmts path = Inl e)"
proof -
  have "raised g = None" if "metasOf (yielded g) \<noteq> []"
  proof (cases "raised g")
    case (Some e)
    then have "yielded g = []" unfolding assms by (rule parseFile_raised_yields_nothing)
    with that show ?thesis by simp
  qed simp
  then show ?thesis
    unfolding parseFileSync_def assms[symmetric] Let_def parseFileSyncLoop_result
    by (auto split: list.splits option.splits)
qed

text \<open>
  The parser of A yields two metas and the result holds the second; the parser of B
  yields none and the call fails; the parser of T yields an error event, whose data is
  thrown.
\<close>

theorem parseFileSync_collects_witness:
  "parseFileSync exampleRuntime exampleFiles exampleFormats (js ''ab.json'') =
     Inr \<lparr>meta = \<lparr>meta_name = js ''second'', meta_platform = js ''pa''\<rparr>,
          members = [1, 2, 3], messages = [10, 11, 12]\<rparr> \<and>
   (\<exists>e. parseFileSync exampleRuntime exampleFiles exampleFormats (js ''ac.json'') = Inl e) \<and>
   parseFileSync exampleRuntime exampleFiles exampleFormats (js ''log.txt'') = Inl (Error (js ''bad line''))"
  using parseFileSync_collects[where L = exampleRuntime and fs = exampleFiles and fmts = exampleFormats
      and path = "js ''ab.json''", OF refl]
    parseFileSync_collects[where L = exampleRuntime and fs = exampleFiles and fmts = exampleFormats
      and path = "js ''ac.json''", OF refl]
    parseFileSync_collects[where L = exampleRuntime and fs = exampleFiles and fmts = exampleFormats
      and path = "js ''log.txt''", OF refl]
  by (simp add: example_parseFile)

subsection \<open>C7: parseFile on an unrecognized file\<close>

text \<open>
  Claim C7 says that \<open>parseFile\<close> yields exactly one event, an error event, for every file
  path that no registered module matches. No module matches a path that cannot be
  opened, and \<open>parseFile\<close> yields nothing on it: \<open>getParser\<close> throws before the first
  \<open>yield\<close>, and the generator raises the system error. So it is on \<open>gone.json\<close>.
\<close>

theorem parseFileS_throws_when_unreadable:
  "parseFileS exampleConstructor exampleRuntime exampleFiles exampleSnifferS
     \<lparr>filePath = js ''gone.json'', batchSize = None\<rparr> (\<lambda>a. 0) =
     (\<lparr>yielded = [], raised = Some (SystemError (js ''ENOENT''))\<rparr>, (\<lambda>a. 0))"
  by (simp add: parseFileS_def getParserS_unreadable exampleFiles_simps)

text \<open>
  Claim C7, amended. When the file cannot be opened or read, \<open>parseFile\<close> yields no event
  and raises the error of opening or reading. When it can be read and \<open>matchFeature\<close>
  returns false for every registered module, in whatever state the patterns are, then
  \<open>parseFile\<close> yields exactly one event, the error event whose message names the path, and
  returns: nothing follows the error event. This is so in particular, with every
  \<open>lastIndex\<close> left as it was, when no registered pattern carries a flag, every required
  field name gives a well-formed pattern text, and no registered module passes the four
  checks.
\<close>

theorem parseFileS_unrecognized:
  "case fs (filePath options) of
     Inl e \<Rightarrow> parseFileS ctor L fs S options \<sigma> = (\<lparr>yielded = [], raised = Some e\<rparr>, \<sigma>)
   | Inr bytes \<Rightarrow>
       ((\<forall>m \<in> set (formatsS S). \<forall>\<sigma>'.
            fst (matchFeatureS ctor (featureS m) (getExtension L (filePath options))
                   (toString_utf8 L (take HEAD_SIZE bytes)) \<sigma>') = Inr False) \<longrightarrow>
        (\<exists>\<sigma>'. parseFileS ctor L fs S options \<sigma> =
           (\<lparr>yielded = [ErrorEvent (Error ([0x65E0, 0x6CD5, 0x8BC6, 0x522B, 0x6587, 0x4EF6, 0x683C, 0x5F0F,
                                             0x3A, 0x20] @ filePath options))],
             raised = None\<rparr>, \<sigma>'))) \<and>
       ((\<forall>m \<in> set (formatsS S).
            unflaggedFeature (featureS m) \<and> wellFormedFields ctor (featureS m) \<and>
            \<not> passesAllChecksS ctor (featureS m) (getExtension L (filePath options))
                 (toString_utf8 L (take HEAD_SIZE bytes))) \<longrightarrow>
        parseFileS ctor L fs S options \<sigma> =
          (\<lparr>yielded = [ErrorEvent (Error ([0x65E0, 0x6CD5, 0x8BC6, 0x522B, 0x6587, 0x4EF6, 0x683C, 0x5F0F,
                                            0x3A, 0x20] @ filePath options))],
            raised = None\<rparr>, \<sigma>))"
proof (cases "fs (filePath options)")
  case (Inl e)
  then show ?thesis by (simp add: parseFileS_def getParserS_unreadable)
next
  case (Inr bytes)
  let ?ext = "getExtension L (filePath options)"
  let ?h = "toString_utf8 L (take HEAD_SIZE bytes)"
  have first: "\<exists>\<sigma>'. getParserLoopS ctor ?ext ?h (formatsS S) \<sigma> = (Inr None, \<sigma>')"
    if "\<forall>m \<in> set (formatsS S). \<forall>\<sigma>'. fst (matchFeatureS ctor (featureS m) ?ext ?h \<sigma>') = Inr False"
    using that by (rule getParserLoopS_none)
  have second: "getParserLoopS ctor ?ext ?h (formatsS S) \<sigma> = (Inr None, \<sigma>)"
    if h: "\<forall>m \<in> set (formatsS S). unflaggedFeature (featureS m) \<and> wellFormedFields ctor (featureS m) \<and>
             \<not> passesAllChecksS ctor (featureS m) ?ext ?h"
  proof -
    from h have "find (\<lambda>m. passesAllChecksS ctor (featureS m) ?ext ?h) (formatsS S) = None"
      by (simp add: find_None_iff)
    moreover from h have "\<forall>m \<in> set (formatsS S).
        unflaggedFeature (featureS m) \<and> wellFormedFields ctor (featureS m)" by simp
    ultimately show ?thesis by (simp add: getParserLoopS_passes)
  qed
  have a: "(\<forall>m \<in> set (formatsS S). \<forall>\<sigma>'. fst (matchFeatureS ctor (featureS m) ?ext ?h \<sigma>') = Inr False) \<longrightarrow>
        (\<exists>\<sigma>'. parseFileS ctor L fs S options \<sigma> =
           (\<lparr>yielded = [ErrorEvent (Error ([0x65E0, 0x6CD5, 0x8BC6, 0x522B, 0x6587, 0x4EF6, 0x683C, 0x5F0F,
                                             0x3A, 0x20] @ filePath options))],
             raised = None\<rparr>, \<sigma>'))"
    using first by (auto simp add: parseFileS_def getParserS_readable[of fs "filePath options" bytes, OF Inr])
  have b: "(\<forall>m \<in> set (formatsS S).
            unflaggedFeature (featureS m) \<and> wellFormedFields ctor (featureS m) \<and>
            \<not> passesAllChecksS ctor (featureS m) ?ext ?h) \<longrightarrow>
        parseFileS ctor L fs S options \<sigma> =
          (\<lparr>yielded = [ErrorEvent (Error ([0x65E0, 0x6CD5, 0x8BC6, 0x522B, 0x6587, 0x4EF6, 0x683C, 0x5F0F,
                                            0x3A, 0x20] @ filePath options))],
            raised = None\<rparr>, \<sigma>)"
    using second by (auto simp add: parseFileS_def getParserS_readable[of fs "filePath options" bytes, OF Inr])
  from a b show ?thesis using Inr by simp
qed

text \<open>
  On \<open>a.JSON\<close> no module of the example matches, and the one event names \<open>a.JSON\<close>.
\<close>

theorem parseFileS_unrecognized_witness:
  "exampleFiles (js ''a.JSON'') = Inr fileA \<and>
   parseFileS exampleConstructor exampleRuntime exampleFiles exampleSnifferS
     \<lparr>filePath = js ''a.JSON'', batchSize = None\<rparr> (\<lambda>a. 0) =
     (\<lparr>yielded = [ErrorEvent (Error ([0x65E0, 0x6CD5, 0x8BC6, 0x522B, 0x6587, 0x4EF6, 0x683C, 0x5F0F,
                                       0x3A, 0x20] @ js ''a.JSON''))],
       raised = None\<rparr>, (\<lambda>a. 0))"
proof -
  have h: "exampleFiles (js ''a.JSON'') = Inr fileA" by (rule exampleFiles_simps)
  have n: "\<forall>m \<in> set (formatsS exampleSnifferS). \<forall>\<sigma>'.
             fst (matchFeatureS exampleConstructor (featureS m) (js ''.json'') headA \<sigma>') = Inr False"
    by (simp add: exampleS_formats matchFeatureS_passes exampleS_unflagged exampleS_wellFormed
        exampleS_passes)
  have p: "\<forall>m \<in> set (formatsS exampleSnifferS).
             unflaggedFeature (featureS m) \<and> wellFormedFields exampleConstructor (featureS m) \<and>
             \<not> passesAllChecksS exampleConstructor (featureS m) (js ''.json'') headA"
    by (simp add: exampleS_formats exampleS_unflagged exampleS_wellFormed exampleS_passes)
  from parseFileS_unrecognized[where fs = exampleFiles and L = exampleRuntime and ctor = exampleConstructor
      and S = exampleSnifferS and options = "\<lparr>filePath = js ''a.JSON'', batchSize = None\<rparr>"
      and \<sigma> = "\<lambda>a. 0"] h n p
  show ?thesis by (simp add: example_extensions example_heads)
qed

subsection \<open>C8: detection depends on the extension and the first 8192 bytes\<close>

text \<open>
  Claim C8. For two readable files with the same extension, as \<open>getExtension\<close> reads it, and
  the same first 8192 bytes, \<open>sniff\<close>, \<open>getParser\<close> and \<open>diagnose\<close> return the same results,
  whatever the sizes of the files and their contents beyond these bytes.
\<close>

theorem detection_depends_on_head_window:
  assumes "fs1 path1 = Inr bytes1" and "fs2 path2 = Inr bytes2"
    and "getExtension L path1 = getExtension L path2"
    and "take 8192 bytes1 = take 8192 bytes2"
  shows "sniff L fs1 S path1 = sniff L fs2 S path2 \<and>
         getParser L fs1 S path1 = getParser L fs2 S path2 \<and>
         diagnose L fs1 S path1 = diagnose L fs2 S path2"
  using assms(3,4)
  by (simp add: sniff_readable[of fs1 path1 bytes1, OF assms(1)] sniff_readable[of fs2 path2 bytes2, OF assms(2)]
      getParser_readable[of fs1 path1 bytes1, OF assms(1)] getParser_readable[of fs2 path2 bytes2, OF assms(2)]
      diagnose_readable[of fs1 path1 bytes1, OF assms(1)] diagnose_readable[of fs2 path2 bytes2, OF assms(2)] HEAD_SIZE_def)

text \<open>
  The two big files differ after 8192 bytes (and in the case of the extension).
\<close>

theorem detection_depends_on_head_window_witness:
  "fileBig1 \<noteq> fileBig2 \<and>
   sniff exampleRuntime exampleFiles (sniffer exampleFormats) (js ''big1.json'') =
     sniff exampleRuntime exampleFiles (sniffer exampleFormats) (js ''big2.JSON'') \<and>
   getParser exampleRuntime exampleFiles (sniffer exampleFormats) (js ''big1.json'') =
     getParser exampleRuntime exampleFiles (sniffer exampleFormats) (js ''big2.JSON'') \<and>
   diagnose exampleRuntime exampleFiles (sniffer exampleFormats) (js ''big1.json'') =
     diagnose exampleRuntime exampleFiles (sniffer exampleFormats) (js ''big2.JSON'')"
proof -
  have e: "getExtension exampleRuntime (js ''big1.json'') = getExtension exampleRuntime (js ''big2.JSON'')"
    by (simp add: example_extensions)
  have t: "take 8192 fileBig1 = take 8192 fileBig2"
    by (simp add: fileBig1_def fileBig2_def)
  have d: "fileBig1 \<noteq> fileBig2"
    by (simp add: fileBig1_def fileBig2_def)
  from detection_depends_on_head_window[where ?fs1.0 = exampleFiles and ?fs2.0 = exampleFiles
      and ?path1.0 = "js ''big1.json''" and ?path2.0 = "js ''big2.JSON''"
      and ?bytes1.0 = fileBig1 and ?bytes2.0 = fileBig2 and L = exampleRuntime
      and S = "sniffer exampleFormats", OF exampleFiles_simps(7) exampleFiles_simps(8) e t] d
  show ?thesis by simp
qed

subsection \<open>C9: diagnose is repeatable when no pattern carries a flag\<close>

text \<open>
  Claim C9 says that two calls of \<open>diagnose\<close> on a file with unchanged extension and head
  window yield identical diagnoses, and that neither call mutates the registry. With the
  format G registered, whose head signature is \<open>/CHAT/g\<close>, the first call on \<open>log.txt\<close>,
  which holds \<open>CHAT log\<close>, recognizes the file and leaves the \<open>lastIndex\<close> of the pattern at
  4; the second call, on the unchanged file, searches from index 4 on, finds nothing and
  does not recognize the file.
\<close>

theorem diagnoseS_differs_on_flagged_pattern:
  "(case diagnoseS exampleConstructor exampleRuntime exampleFiles exampleSnifferG (js ''log.txt'') (\<lambda>a. 0) of
      (Inl e, \<sigma>1) \<Rightarrow> False
    | (Inr d1, \<sigma>1) \<Rightarrow>
        recognizedS d1 \<and> \<sigma>1 0 = 4 \<and>
        (case diagnoseS exampleConstructor exampleRuntime exampleFiles exampleSnifferG (js ''log.txt'') \<sigma>1 of
           (Inl e, \<sigma>2) \<Rightarrow> False
         | (Inr d2, \<sigma>2) \<Rightarrow> \<not> recognizedS d2))"
proof -
  have g: "js ''.txt'' \<in> set (extensionsS featureGS)"
    "headS (signaturesS featureGS) =
       Some [\<lparr>address = 0, matchFrom = literalFrom (js ''CHAT''), flagged = True\<rparr>]"
    "requiredFieldsS (signaturesS featureGS) = None" "fieldPatternsS (signaturesS featureGS) = None"
    by (simp_all add: featureGS_def)
  have first: "test \<lparr>address = 0, matchFrom = literalFrom (js ''CHAT''), flagged = True\<rparr> headLog (\<lambda>a. 0) =
                 (True, (\<lambda>a. 0)(0 := 4))"
    by (simp add: test_def exampleS_literal)
  have second: "test \<lparr>address = 0, matchFrom = literalFrom (js ''CHAT''), flagged = True\<rparr> headLog
                  ((\<lambda>a. 0)(0 := 4)) = (False, (\<lambda>a. 0)(0 := 4, 0 := 0))"
    by (simp add: test_def exampleS_literal)
  show ?thesis
    by (simp add: diagnoseS_readable[of exampleFiles "js ''log.txt''" fileLog, OF exampleFiles_simps(4)]
        example_extensions example_heads exampleS_formats checkFeatureDetailS_def g first second Let_def)
qed

text \<open>
  Claim C9, amended. If no pattern of a registered feature carries the \<open>g\<close> or \<open>y\<close> flag,
  the file is readable at two successive calls of \<open>diagnose\<close> on the same path, and its
  first 8192 bytes are the same at both (the file system may differ otherwise), then
  the two calls have the same outcome, equal in every field of the diagnosis, and each
  call leaves the \<open>lastIndex\<close> of every pattern as it was before the first; the outcome is
  a diagnosis when every required field name of the registry gives a well-formed
  pattern text.
\<close>

theorem diagnoseS_repeatable:
  assumes "fs path = Inr bytes" and "fs' path = Inr bytes'"
    and "take 8192 bytes = take 8192 bytes'"
    and "\<forall>m \<in> set (formatsS S). unflaggedFeature (featureS m)"
  shows "case diagnoseS ctor L fs S path \<sigma> of
           (r1, \<sigma>1) \<Rightarrow>
             (case diagnoseS ctor L fs' S path \<sigma>1 of
                (r2, \<sigma>2) \<Rightarrow>
                  r1 = r2 \<and> \<sigma>1 = \<sigma> \<and> \<sigma>2 = \<sigma> \<and>
                  ((\<forall>m \<in> set (formatsS S). wellFormedFields ctor (featureS m)) \<longrightarrow>
                     (\<exists>d. r1 = Inr d)))"
proof -
  have heads: "take HEAD_SIZE bytes' = take HEAD_SIZE bytes"
    using assms(3) by (simp add: HEAD_SIZE_def)
  have same: "diagnoseS ctor L fs' S path \<sigma> = diagnoseS ctor L fs S path \<sigma>"
    unfolding diagnoseS_readable[of fs path bytes, OF assms(1)]
      diagnoseS_readable[of fs' path bytes', OF assms(2)] heads
    by (rule refl)
  have unchanged: "snd (diagnoseS ctor L fs S path \<sigma>) = \<sigma>"
    using assms(1,4) by (rule diagnoseS_unflagged)
  have returns: "\<exists>d. fst (diagnoseS ctor L fs S path \<sigma>) = Inr d"
    if "\<forall>m \<in> set (formatsS S). wellFormedFields ctor (featureS m)"
    using assms(1) that by (rule diagnoseS_returns)
  obtain r1 \<sigma>1 where r: "diagnoseS ctor L fs S path \<sigma> = (r1, \<sigma>1)"
    by (cases "diagnoseS ctor L fs S path \<sigma>")
  with unchanged have "\<sigma>1 = \<sigma>" by simp
  with r same returns show ?thesis by simp
qed

text \<open>
  Rewriting \<open>big1.json\<close> beyond its head window does not change its diagnosis, and the
  calls write to no pattern.
\<close>

theorem diagnoseS_repeatable_witness:
  "exampleFiles (js ''big1.json'') \<noteq> exampleFilesLater (js ''big1.json'') \<and>
   fst (diagnoseS exampleConstructor exampleRuntime exampleFiles exampleSnifferS (js ''big1.json'') (\<lambda>a. 0)) =
     fst (diagnoseS exampleConstructor exampleRuntime exampleFilesLater exampleSnifferS (js ''big1.json'')
            (\<lambda>a. 0)) \<and>
   snd (diagnoseS exampleConstructor exampleRuntime exampleFiles exampleSnifferS (js ''big1.json'') (\<lambda>a. 0)) =
     (\<lambda>a. 0) \<and>
   (\<exists>d. fst (diagnoseS exampleConstructor exampleRuntime exampleFiles exampleSnifferS (js ''big1.json'')
                (\<lambda>a. 0)) = Inr d)"
proof -
  have l: "exampleFilesLater (js ''big1.json'') = Inr fileBig2"
    by (simp add: exampleFilesLater_def)
  have t: "take 8192 fileBig1 = take 8192 fileBig2"
    by (simp add: fileBig1_def fileBig2_def)
  have d: "fileBig1 \<noteq> fileBig2"
    by (simp add: fileBig1_def fileBig2_def)
  have w: "\<forall>m \<in> set (formatsS exampleSnifferS). wellFormedFields exampleConstructor (featureS m)"
    by (simp add: exampleS_formats exampleS_wellFormed)
  have u: "\<forall>m \<in> set (formatsS exampleSnifferS). unflaggedFeature (featureS m)"
    by (simp add: exampleS_formats exampleS_unflagged)
  from diagnoseS_repeatable[where fs = exampleFiles and fs' = exampleFilesLater
      and path = "js ''big1.json''" and bytes = fileBig1 and bytes' = fileBig2 and L = exampleRuntime
      and ctor = exampleConstructor and S = exampleSnifferS and \<sigma> = "\<lambda>a. 0",
      OF exampleFiles_simps(7) l t u] w d
  show ?thesis by (auto simp add: exampleFiles_simps l split: prod.splits)
qed

subsection \<open>C10: parseFileInfo without a meta event\<close>

text \<open>
  Claim C10. If \<open>sniff\<close> recognizes the file and the events hold no meta and no error event,
  then \<open>parseFileInfo\<close> returns: the name is the default name, the format and the platform
  are those of the sniffed feature, the two counts are the sums of the lengths of the
  messages batches and of the members batches, and the size is the length of the file.
  It fails only when \<open>sniff\<close> returns no feature or an error event is yielded.
\<close>

theorem parseFileInfo_without_meta:
  assumes "g = parseFile L fs fmts \<lparr>filePath = path, batchSize = None\<rparr>"
  shows "(\<forall>feat. sniff L fs (sniffer fmts) path = Inr (Some feat) \<and>
                 metasOf (yielded g) = [] \<and> errorsOf (yielded g) = [] \<longrightarrow>
            (\<exists>bytes. fs path = Inr bytes \<and> parseFileInfo L fs fmts path =
               Inr \<lparr>info_name = [0x672A, 0x77E5, 0x7FA4, 0x804A],
                    info_format = feature_name feat,
                    info_platform = feature_platform feat,
                    messageCount = sum_list (map length (messagesBatches (yielded g))),
                    memberCount = sum_list (map length (membersBatches (yielded g))),
                    fileSize = length bytes\<rparr>)) \<and>
         (\<forall>e. parseFileInfo L fs fmts path = Inl e \<longrightarrow>
            (\<forall>feat. sniff L fs (sniffer fmts) path \<noteq> Inr (Some feat)) \<or> errorsOf (yielded g) \<noteq> [])"
proof (intro conjI allI impI)
  fix feat
  assume h: "sniff L fs (sniffer fmts) path = Inr (Some feat) \<and>
             metasOf (yielded g) = [] \<and> errorsOf (yielded g) = []"
  from sniff_Some_parseFile[of L fs fmts path feat None] h assms
  obtain bytes where "fs path = Inr bytes" "raised g = None" by auto
  with h show "\<exists>bytes. fs path = Inr bytes \<and> parseFileInfo L fs fmts path =
               Inr \<lparr>info_name = [0x672A, 0x77E5, 0x7FA4, 0x804A],
                    info_format = feature_name feat,
                    info_platform = feature_platform feat,
                    messageCount = sum_list (map length (messagesBatches (yielded g))),
                    memberCount = sum_list (map length (membersBatches (yielded g))),
                    fileSize = length bytes\<rparr>"
    unfolding parseFileInfo_def assms[symmetric] Let_def parseFileInfoLoop_result
    by simp
next
  fix e
  assume f: "parseFileInfo L fs fmts path = Inl e"
  show "(\<forall>feat. sniff L fs (sniffer fmts) path \<noteq> Inr (Some feat)) \<or> errorsOf (yielded g) \<noteq> []"
  proof (rule ccontr)
    assume "\<not> ?thesis"
    then obtain feat where s: "sniff L fs (sniffer fmts) path = Inr (Some feat)"
      and ne: "errorsOf (yielded g) = []" by auto
    from sniff_Some_parseFile[of L fs fmts path feat None] s assms
    obtain bytes where "fs path = Inr bytes" "raised g = None" by auto
    with s ne f show False
      unfolding parseFileInfo_def assms[symmetric] Let_def parseFileInfoLoop_result
      by simp
  qed
qed

text \<open>
  \<open>ac.json\<close> is recognized as B, whose parser yields no meta; \<open>log.txt\<close> is recognized as T,
  whose parser yields an error event, and the call fails with its data.
\<close>

theorem parseFileInfo_without_meta_witness:
  "parseFileInfo exampleRuntime exampleFiles exampleFormats (js ''ac.json'') =
     Inr \<lparr>info_name = [0x672A, 0x77E5, 0x7FA4, 0x804A], info_format = js ''Format B'',
          info_platform = js ''pb'', messageCount = 3, memberCount = 1, fileSize = 13\<rparr> \<and>
   parseFileInfo exampleRuntime exampleFiles exampleFormats (js ''log.txt'') = Inl (Error (js ''bad line'')) \<and>
   errorsOf (yielded (parseFile exampleRuntime exampleFiles exampleFormats
                        \<lparr>filePath = js ''log.txt'', batchSize = None\<rparr>)) \<noteq> []"
proof -
  have f: "parseFileInfo exampleRuntime exampleFiles exampleFormats (js ''log.txt'') = Inl (Error (js ''bad line''))"
    by (simp add: parseFileInfo_def example_sniff example_parseFile)
  from parseFileInfo_without_meta[where L = exampleRuntime and fs = exampleFiles and fmts = exampleFormats
      and path = "js ''ac.json''", OF refl]
  have "\<exists>bytes. exampleFiles (js ''ac.json'') = Inr bytes \<and>
          parseFileInfo exampleRuntime exampleFiles exampleFormats (js ''ac.json'') =
            Inr \<lparr>info_name = [0x672A, 0x77E5, 0x7FA4, 0x804A], info_format = feature_name featureB,
                 info_platform = feature_platform featureB, messageCount = 3, memberCount = 1,
                 fileSize = length bytes\<rparr>"
    by (simp add: example_sniff example_parseFile numeral_3_eq_3)
  then have a: "parseFileInfo exampleRuntime exampleFiles exampleFormats (js ''ac.json'') =
     Inr \<lparr>info_name = [0x672A, 0x77E5, 0x7FA4, 0x804A], info_format = js ''Format B'',
          info_platform = js ''pb'', messageCount = 3, memberCount = 1, fileSize = 13\<rparr>"
    by (auto simp: exampleFiles_simps fileAC_def example_fields)
  from parseFileInfo_without_meta[where L = exampleRuntime and fs = exampleFiles and fmts = exampleFormats
      and path = "js ''log.txt''", OF refl] f
  have "errorsOf (yielded (parseFile exampleRuntime exampleFiles exampleFormats
                        \<lparr>filePath = js ''log.txt'', batchSize = None\<rparr>)) \<noteq> []"
    by (simp add: example_sniff)
  with a f show ?thesis by simp
qed

end
